theory Spec2Isabelle
  imports Complex_Main
begin

section \<open>Domain data\<close>

text \<open>
  The script \<^verbatim>\<open>costmin.py\<close> works on three dictionaries: \<^verbatim>\<open>demand\<close> (line to
  number), \<^verbatim>\<open>costs\<close> (supplier to material to price) and \<^verbatim>\<open>ceramic_composition\<close>
  (line to material to kilograms). A dictionary is modelled by the list of its items in
  insertion order, which is the order Python iterates it in; a lookup takes the item of
  the key. Numbers are exact rationals: the rounding of Python's floats is not modelled.
\<close>

type_synonym line = string
type_synonym supplier = string
type_synonym material = string
type_synonym 'v dict = "(string \<times> 'v) list"

definition keys :: "'v dict \<Rightarrow> string list" where
  "keys d = map fst d"

text \<open>The exceptions the script can raise.\<close>

datatype key = Name string | Triple string string string

datatype error = KeyError key | IndexError | TypeError | PulpSolverError

definition getitem :: "'v dict \<Rightarrow> string \<Rightarrow> error + 'v" where
  "getitem d k = (case map_of d k of None \<Rightarrow> Inl (KeyError (Name k)) | Some v \<Rightarrow> Inr v)"

definition and_then :: "error + 'a \<Rightarrow> ('a \<Rightarrow> error + 'b) \<Rightarrow> error + 'b" where
  "and_then r f = (case r of Inl e \<Rightarrow> Inl e | Inr v \<Rightarrow> f v)"

text \<open>A comprehension or loop whose body may raise: the first exception ends it.\<close>

fun for_each :: "('a \<Rightarrow> error + 'b) \<Rightarrow> 'a list \<Rightarrow> error + 'b list" where
  "for_each f [] = Inr []"
| "for_each f (a # as) =
     (case f a of
        Inl e \<Rightarrow> Inl e
      | Inr b \<Rightarrow> (case for_each f as of Inl e \<Rightarrow> Inl e | Inr bs \<Rightarrow> Inr (b # bs)))"

definition for_each_concat :: "('a \<Rightarrow> error + 'b list) \<Rightarrow> 'a list \<Rightarrow> error + 'b list" where
  "for_each_concat f xs = and_then (for_each f xs) (\<lambda>yss. Inr (concat yss))"

section \<open>The optimisation model\<close>

text \<open>
  The four families of decision variables. \<open>X i s m\<close> is \<^verbatim>\<open>x[i, s, m]\<close>, \<open>Z i m s\<close> is
  \<^verbatim>\<open>z[i, m, s]\<close>, \<open>P_plus i\<close> and \<open>P_minus i\<close> are \<^verbatim>\<open>p_plus[i]\<close> and \<^verbatim>\<open>p_minus[i]\<close>.
\<close>

datatype var = X line supplier material | Z line material supplier | P_plus line | P_minus line

datatype category = Continuous | Binary

record var_decl =
  var_name :: var
  lowBound :: "rat option"
  upBound :: "rat option"
  cat :: category

text \<open>
  An affine expression: the terms in the order they were added, and a constant. (PuLP
  keeps one coefficient per variable; a list that repeats a variable has the same value.)
  Multiplying an expression by the number 0 gives PuLP's empty expression: the terms are
  dropped, not kept with coefficient 0.
\<close>

record linexpr =
  coeffs :: "(var \<times> rat) list"
  const_part :: rat

definition of_var :: "var \<Rightarrow> linexpr" where
  "of_var v = \<lparr>coeffs = [(v, 1)], const_part = 0\<rparr>"

definition of_num :: "rat \<Rightarrow> linexpr" where
  "of_num c = \<lparr>coeffs = [], const_part = c\<rparr>"

definition add :: "linexpr \<Rightarrow> linexpr \<Rightarrow> linexpr" where
  "add e1 e2 = \<lparr>coeffs = coeffs e1 @ coeffs e2, const_part = const_part e1 + const_part e2\<rparr>"

definition scale :: "rat \<Rightarrow> linexpr \<Rightarrow> linexpr" where
  "scale k e =
     (if k = 0 then \<lparr>coeffs = [], const_part = 0\<rparr>
      else \<lparr>coeffs = map (\<lambda>(v, c). (v, k * c)) (coeffs e), const_part = k * const_part e\<rparr>)"

definition sub :: "linexpr \<Rightarrow> linexpr \<Rightarrow> linexpr" where
  "sub e1 e2 = add e1 (scale (- 1) e2)"

definition lpSum :: "linexpr list \<Rightarrow> linexpr" where
  "lpSum es = foldr add es (of_num 0)"

datatype sense = LE | EQ | GE

record constraint =
  lhs :: linexpr
  sense :: sense
  rhs :: linexpr

datatype direction = LpMinimize | LpMaximize

record model =
  direction :: direction
  variables :: "var_decl list"
  objective :: linexpr
  constraints :: "constraint list"

section \<open>Model construction\<close>

text \<open>
  \<^verbatim>\<open>LpVariable.dicts\<close> builds a dictionary from index tuples to variables. The dictionary
  is modelled by the list of its index tuples; the variable of a tuple is the
  constructor applied to it. Looking up a tuple that is not an index raises KeyError.
\<close>

definition x_indices ::
  "rat dict \<Rightarrow> rat dict dict \<Rightarrow> rat dict dict \<Rightarrow> error + (line \<times> supplier \<times> material) list" where
  "x_indices demand costs ceramic_composition =
     for_each_concat (\<lambda>i.
       for_each_concat (\<lambda>s.
         and_then (getitem ceramic_composition i) (\<lambda>c.
           Inr (map (\<lambda>m. (i, s, m)) (keys c))))
         (keys costs))
       (keys demand)"

definition z_indices ::
  "rat dict \<Rightarrow> rat dict dict \<Rightarrow> rat dict dict \<Rightarrow> error + (line \<times> material \<times> supplier) list" where
  "z_indices demand costs ceramic_composition =
     for_each_concat (\<lambda>i.
       and_then (getitem ceramic_composition i) (\<lambda>c.
         Inr (concat (map (\<lambda>m. map (\<lambda>s. (i, m, s)) (keys costs)) (keys c)))))
       (keys demand)"

definition getitem_x :: "(line \<times> supplier \<times> material) list \<Rightarrow> line \<Rightarrow> supplier \<Rightarrow> material \<Rightarrow> error + var" where
  "getitem_x x i s m = (if (i, s, m) \<in> set x then Inr (X i s m) else Inl (KeyError (Triple i s m)))"

definition getitem_z :: "(line \<times> material \<times> supplier) list \<Rightarrow> line \<Rightarrow> material \<Rightarrow> supplier \<Rightarrow> error + var" where
  "getitem_z z i m s = (if (i, m, s) \<in> set z then Inr (Z i m s) else Inl (KeyError (Triple i m s)))"

definition x_decl :: "line \<times> supplier \<times> material \<Rightarrow> var_decl" where
  "x_decl k = (case k of (i, s, m) \<Rightarrow>
     \<lparr>var_name = X i s m, lowBound = Some 0, upBound = None, cat = Continuous\<rparr>)"

definition z_decl :: "line \<times> material \<times> supplier \<Rightarrow> var_decl" where
  "z_decl k = (case k of (i, m, s) \<Rightarrow>
     \<lparr>var_name = Z i m s, lowBound = None, upBound = None, cat = Binary\<rparr>)"

definition p_plus_decl :: "line \<Rightarrow> var_decl" where
  "p_plus_decl i = \<lparr>var_name = P_plus i, lowBound = Some 0, upBound = None, cat = Continuous\<rparr>"

definition p_minus_decl :: "line \<Rightarrow> var_decl" where
  "p_minus_decl i = \<lparr>var_name = P_minus i, lowBound = Some 0, upBound = None, cat = Continuous\<rparr>"

text \<open>The objective of lines 52-53: purchase cost plus the two weighted penalty sums.\<close>

definition purchase_terms ::
  "(line \<times> supplier \<times> material) list \<Rightarrow> rat dict \<Rightarrow> rat dict dict \<Rightarrow> rat dict dict \<Rightarrow> error + linexpr list" where
  "purchase_terms x demand costs ceramic_composition =
     for_each_concat (\<lambda>i.
       for_each_concat (\<lambda>s.
         and_then (getitem ceramic_composition i) (\<lambda>c.
           for_each (\<lambda>m.
             and_then (getitem_x x i s m) (\<lambda>v.
             and_then (getitem costs s) (\<lambda>prices.
             and_then (getitem prices m) (\<lambda>p.
               Inr (scale p (of_var v))))))
             (keys c)))
         (keys costs))
       (keys demand)"

definition objective_expr ::
  "(line \<times> supplier \<times> material) list \<Rightarrow> rat dict \<Rightarrow> rat dict dict \<Rightarrow> rat dict dict \<Rightarrow> error + linexpr" where
  "objective_expr x demand costs ceramic_composition =
     and_then (purchase_terms x demand costs ceramic_composition) (\<lambda>ts.
       Inr (add (add (lpSum ts)
                     (scale (2 / 100) (lpSum (map (\<lambda>i. of_var (P_plus i)) (keys demand)))))
                (scale (5 / 100) (lpSum (map (\<lambda>i. of_var (P_minus i)) (keys demand))))))"

text \<open>Restriction 1 (lines 58-59): the floor on purchases from \<^verbatim>\<open>"supplier 1"\<close>.\<close>

definition restriction1 ::
  "(line \<times> supplier \<times> material) list \<Rightarrow> rat dict \<Rightarrow> rat dict dict \<Rightarrow> error + constraint list" where
  "restriction1 x demand ceramic_composition =
     for_each (\<lambda>i.
       and_then (getitem ceramic_composition i) (\<lambda>c.
       and_then (for_each (\<lambda>m. getitem_x x i ''supplier 1'' m) (keys c)) (\<lambda>vs.
         Inr \<lparr>lhs = lpSum (map of_var vs), sense = GE, rhs = of_num 1\<rparr>)))
       (keys demand)"

text \<open>Restriction 2 (lines 62-63): the ceiling on materials from \<^verbatim>\<open>"supplier 3"\<close>.\<close>

definition restriction2 ::
  "(line \<times> material \<times> supplier) list \<Rightarrow> rat dict \<Rightarrow> rat dict dict \<Rightarrow> error + constraint list" where
  "restriction2 z demand ceramic_composition =
     for_each (\<lambda>i.
       and_then (getitem ceramic_composition i) (\<lambda>c.
       and_then (for_each (\<lambda>m. getitem_z z i m ''supplier 3'') (keys c)) (\<lambda>vs.
         Inr \<lparr>lhs = lpSum (map of_var vs), sense = LE, rhs = of_num 2\<rparr>)))
       (keys demand)"

text \<open>Restriction 3 (lines 66-68): the required quantity of every material of every line.\<close>

definition restriction3 ::
  "(line \<times> supplier \<times> material) list \<Rightarrow> rat dict dict \<Rightarrow> rat dict dict \<Rightarrow> error + constraint list" where
  "restriction3 x costs ceramic_composition =
     for_each_concat (\<lambda>i.
       and_then (getitem ceramic_composition i) (\<lambda>c.
         for_each (\<lambda>m.
           and_then (for_each (\<lambda>s. getitem_x x i s m) (keys costs)) (\<lambda>vs.
           and_then (getitem ceramic_composition i) (\<lambda>c'.
           and_then (getitem c' m) (\<lambda>q.
             Inr \<lparr>lhs = lpSum (map of_var vs), sense = EQ, rhs = of_num q\<rparr>))))
           (keys c)))
       (keys ceramic_composition)"

text \<open>Restriction 4 (lines 71-72): demand matching with the two penalty variables.\<close>

definition restriction4 ::
  "(line \<times> supplier \<times> material) list \<Rightarrow> rat dict \<Rightarrow> rat dict dict \<Rightarrow> rat dict dict \<Rightarrow> error + constraint list" where
  "restriction4 x demand costs ceramic_composition =
     for_each (\<lambda>i.
       and_then (for_each_concat (\<lambda>s.
           and_then (getitem ceramic_composition i) (\<lambda>c.
             for_each (\<lambda>m. getitem_x x i s m) (keys c)))
           (keys costs)) (\<lambda>vs.
       and_then (getitem demand i) (\<lambda>d.
         Inr \<lparr>lhs = lpSum (map of_var vs), sense = EQ,
              rhs = sub (add (of_num d) (of_var (P_plus i))) (of_var (P_minus i))\<rparr>)))
       (keys demand)"

text \<open>
  Restriction 5 (lines 75-79): one chosen supplier for every material of every line, and
  the link between the purchase variable and its indicator.
\<close>

definition restriction5 ::
  "(line \<times> supplier \<times> material) list \<Rightarrow> (line \<times> material \<times> supplier) list \<Rightarrow>
   rat dict \<Rightarrow> rat dict dict \<Rightarrow> rat dict dict \<Rightarrow> error + constraint list" where
  "restriction5 x z demand costs ceramic_composition =
     for_each_concat (\<lambda>i.
       and_then (getitem ceramic_composition i) (\<lambda>c.
         for_each_concat (\<lambda>m.
           and_then (for_each (\<lambda>s. getitem_z z i m s) (keys costs)) (\<lambda>zs.
           and_then (for_each (\<lambda>s.
               and_then (getitem_x x i s m) (\<lambda>xv.
               and_then (getitem_z z i m s) (\<lambda>zv.
               and_then (getitem ceramic_composition i) (\<lambda>c'.
               and_then (getitem c' m) (\<lambda>q.
                 Inr \<lparr>lhs = of_var xv, sense = LE, rhs = scale q (of_var zv)\<rparr>)))))
               (keys costs)) (\<lambda>links.
             Inr (\<lparr>lhs = lpSum (map of_var zs), sense = EQ, rhs = of_num 1\<rparr> # links))))
           (keys c)))
       (keys demand)"

text \<open>
  Lines 39-79 as a whole: the first exception aborts the construction. The result keeps
  the two variable dictionaries beside the problem, since the reporting code reads \<^verbatim>\<open>x\<close>.
\<close>

record built =
  x_dict :: "(line \<times> supplier \<times> material) list"
  z_dict :: "(line \<times> material \<times> supplier) list"
  prob :: model

definition build_model :: "rat dict \<Rightarrow> rat dict dict \<Rightarrow> rat dict dict \<Rightarrow> error + built" where
  "build_model demand costs ceramic_composition =
     and_then (x_indices demand costs ceramic_composition) (\<lambda>x.
     and_then (z_indices demand costs ceramic_composition) (\<lambda>z.
     and_then (objective_expr x demand costs ceramic_composition) (\<lambda>obj.
     and_then (restriction1 x demand ceramic_composition) (\<lambda>r1.
     and_then (restriction2 z demand ceramic_composition) (\<lambda>r2.
     and_then (restriction3 x costs ceramic_composition) (\<lambda>r3.
     and_then (restriction4 x demand costs ceramic_composition) (\<lambda>r4.
     and_then (restriction5 x z demand costs ceramic_composition) (\<lambda>r5.
       Inr \<lparr>x_dict = x, z_dict = z,
            prob = \<lparr>direction = LpMinimize,
                    variables = map x_decl x @ map p_plus_decl (keys demand)
                                 @ map p_minus_decl (keys demand) @ map z_decl z,
                    objective = obj,
                    constraints = r1 @ r2 @ r3 @ r4 @ r5\<rparr>\<rparr>))))))))"

section \<open>What a model means\<close>

text \<open>
  An assignment gives every variable a number. It is feasible for a model when every
  declared variable lies in its domain (a binary variable is 0 or 1, a continuous one
  lies within its bounds) and every constraint holds. An optimal assignment is a
  feasible one of least objective value, so what holds of every feasible assignment
  holds of every optimal one.
\<close>

definition value_of :: "(var \<Rightarrow> rat) \<Rightarrow> linexpr \<Rightarrow> rat" where
  "value_of a e = sum_list (map (\<lambda>(v, c). c * a v) (coeffs e)) + const_part e"

definition satisfies :: "(var \<Rightarrow> rat) \<Rightarrow> constraint \<Rightarrow> bool" where
  "satisfies a c =
     (case sense c of
        LE \<Rightarrow> value_of a (lhs c) \<le> value_of a (rhs c)
      | EQ \<Rightarrow> value_of a (lhs c) = value_of a (rhs c)
      | GE \<Rightarrow> value_of a (rhs c) \<le> value_of a (lhs c))"

definition in_domain :: "(var \<Rightarrow> rat) \<Rightarrow> var_decl \<Rightarrow> bool" where
  "in_domain a d =
     (case cat d of
        Binary \<Rightarrow> a (var_name d) = 0 \<or> a (var_name d) = 1
      | Continuous \<Rightarrow>
          (case lowBound d of None \<Rightarrow> True | Some l \<Rightarrow> l \<le> a (var_name d)) \<and>
          (case upBound d of None \<Rightarrow> True | Some u \<Rightarrow> a (var_name d) \<le> u))"

definition feasible :: "model \<Rightarrow> (var \<Rightarrow> rat) \<Rightarrow> bool" where
  "feasible mdl a = (list_all (in_domain a) (variables mdl) \<and> list_all (satisfies a) (constraints mdl))"

text \<open>The materials of a line and the price of a material, as total functions.\<close>

definition materials :: "rat dict dict \<Rightarrow> line \<Rightarrow> material list" where
  "materials ceramic_composition i =
     (case map_of ceramic_composition i of None \<Rightarrow> [] | Some c \<Rightarrow> keys c)"

definition price :: "rat dict dict \<Rightarrow> supplier \<Rightarrow> material \<Rightarrow> rat" where
  "price costs s m =
     (case map_of costs s of
        None \<Rightarrow> 0
      | Some prices \<Rightarrow> (case map_of prices m of None \<Rightarrow> 0 | Some p \<Rightarrow> p))"

text \<open>The objective as the specification writes it, with its two named weights.\<close>

definition w_plus :: rat where
  "w_plus = 2 / 100"

definition w_minus :: rat where
  "w_minus = 5 / 100"

definition spec_objective :: "(var \<Rightarrow> rat) \<Rightarrow> rat dict \<Rightarrow> rat dict dict \<Rightarrow> rat dict dict \<Rightarrow> rat" where
  "spec_objective a demand costs ceramic_composition =
     (\<Sum>i\<leftarrow>keys demand. \<Sum>s\<leftarrow>keys costs. \<Sum>m\<leftarrow>materials ceramic_composition i.
         a (X i s m) * price costs s m)
     + w_plus * (\<Sum>i\<leftarrow>keys demand. a (P_plus i))
     + w_minus * (\<Sum>i\<leftarrow>keys demand. a (P_minus i))"

text \<open>Which variables a constraint mentions.\<close>

definition constraint_vars :: "constraint \<Rightarrow> var list" where
  "constraint_vars c = map fst (coeffs (lhs c)) @ map fst (coeffs (rhs c))"

definition is_indicator :: "var \<Rightarrow> bool" where
  "is_indicator v = (case v of Z i m s \<Rightarrow> True | _ \<Rightarrow> False)"

definition is_purchase :: "var \<Rightarrow> bool" where
  "is_purchase v = (case v of X i s m \<Rightarrow> True | _ \<Rightarrow> False)"

definition over_indicators :: "constraint \<Rightarrow> bool" where
  "over_indicators c = list_all is_indicator (constraint_vars c)"

definition over_purchases :: "constraint \<Rightarrow> bool" where
  "over_purchases c = list_all is_purchase (constraint_vars c)"

section \<open>Solving and reporting\<close>

text \<open>
  The solver is outside the script. \<^verbatim>\<open>prob.solve\<close> either raises an exception
  (PulpSolverError when the solver cannot run the problem), which ends the script at line
  82, or returns a status, which line 82 discards, and leaves a value (or \<^verbatim>\<open>None\<close>) in
  every variable.
\<close>

datatype status = Not_Solved | Optimal | Infeasible | Unbounded | Undefined

record solution =
  status :: status
  varValue :: "var \<Rightarrow> rat option"

text \<open>
  \<^verbatim>\<open>prob.objective.value()\<close> after the solve. The value of an expression is
  \<^verbatim>\<open>None\<close> as soon as one of its variables has no value. For a solve, PuLP adds its
  dummy variable to an objective without terms and afterwards subtracts it, which leaves
  the dummy in the objective with coefficient 0; the solver's values are never assigned to
  the dummy, so the value of an objective without terms is \<^verbatim>\<open>None\<close>.
\<close>

definition objective_value :: "(var \<Rightarrow> rat option) \<Rightarrow> linexpr \<Rightarrow> rat option" where
  "objective_value vals e =
     (if coeffs e = [] then None
      else foldl (\<lambda>acc (v, c).
             case acc of
               None \<Rightarrow> None
             | Some t \<Rightarrow> (case vals v of None \<Rightarrow> None | Some r \<Rightarrow> Some (t + r * c)))
            (Some (const_part e)) (coeffs e))"

text \<open>
  What the script prints, one item per \<^verbatim>\<open>print\<close> call. The layout of a number in a
  printed line is not modelled: a purchase line carries its material, supplier and value.
  A run is what was printed and the exception that ended it, if any.
\<close>

datatype printed =
    Header line
  | Purchase material supplier "rat option"
  | Blank
  | Total_Cost "rat option"
  | Table string

type_synonym run = "printed list \<times> error option"

definition then_run :: "run \<Rightarrow> run \<Rightarrow> run" where
  "then_run r1 r2 = (case snd r1 of Some e \<Rightarrow> r1 | None \<Rightarrow> (fst r1 @ fst r2, snd r2))"

fun run_all :: "('a \<Rightarrow> run) \<Rightarrow> 'a list \<Rightarrow> run" where
  "run_all f [] = ([], None)"
| "run_all f (a # as) = then_run (f a) (run_all f as)"

text \<open>Lines 85-91, the detail view. \<^verbatim>\<open>None != 0\<close> is true in Python.\<close>

definition detail_entry ::
  "(line \<times> supplier \<times> material) list \<Rightarrow> (var \<Rightarrow> rat option) \<Rightarrow> line \<Rightarrow> material \<Rightarrow> supplier \<Rightarrow> run" where
  "detail_entry x vals i m s =
     (case getitem_x x i s m of
        Inl e \<Rightarrow> ([], Some e)
      | Inr v \<Rightarrow> if vals v \<noteq> Some 0 then ([Purchase m s (vals v)], None) else ([], None))"

definition detail_view ::
  "(line \<times> supplier \<times> material) list \<Rightarrow> (var \<Rightarrow> rat option) \<Rightarrow> rat dict dict \<Rightarrow> rat dict dict \<Rightarrow> run" where
  "detail_view x vals costs ceramic_composition =
     run_all (\<lambda>i.
       then_run ([Header i], None)
         (case getitem ceramic_composition i of
            Inl e \<Rightarrow> ([], Some e)
          | Inr c \<Rightarrow>
              then_run
                (run_all (\<lambda>m. run_all (\<lambda>s. detail_entry x vals i m s) (keys costs)) (keys c))
                ([Blank], None)))
       (keys ceramic_composition)"

text \<open>Lines 97-117, the summary table.\<close>

definition ljust :: "nat \<Rightarrow> string \<Rightarrow> string" where
  "ljust n s = s @ replicate (n - length s) CHR '' ''"

definition newline :: string where
  "newline = [CHR 0x0A]"

definition header :: string where
  "header = ljust 15 ''Dental implantation'' @ '' | '' @ ljust 10 ''White'' @ '' | ''
            @ ljust 10 ''Yellow'' @ '' | '' @ ljust 10 ''Pink'' @ '' | '' @ ljust 10 ''Gray''
            @ newline"

definition divider :: string where
  "divider = replicate 60 CHR ''_'' @ newline"

text \<open>
  The inner loop of lines 108-112: the first supplier with a positive value, else
  \<^verbatim>\<open>"0"\<close>. Comparing \<^verbatim>\<open>None\<close> with 0 raises TypeError; \<^verbatim>\<open>s[-1]\<close> of an empty
  name raises IndexError.
\<close>

fun found_supplier ::
  "(line \<times> supplier \<times> material) list \<Rightarrow> (var \<Rightarrow> rat option) \<Rightarrow> line \<Rightarrow> material \<Rightarrow> supplier list \<Rightarrow> error + string" where
  "found_supplier x vals i m [] = Inr ''0''"
| "found_supplier x vals i m (s # ss) =
     (case getitem_x x i s m of
        Inl e \<Rightarrow> Inl e
      | Inr v \<Rightarrow>
          (case vals v of
             None \<Rightarrow> Inl TypeError
           | Some r \<Rightarrow>
               if 0 < r then (if s = [] then Inl IndexError else Inr (''supplier '' @ [last s]))
               else found_supplier x vals i m ss))"

text \<open>Line 115: the row is read at the fixed positions 0 to 4.\<close>

definition format_row :: "string list \<Rightarrow> error + string" where
  "format_row row =
     (if length row < 5 then Inl IndexError
      else Inr (ljust 15 (row ! 0) @ '' | '' @ ljust 10 (row ! 1) @ '' | ''
                @ ljust 10 (row ! 2) @ '' | '' @ ljust 10 (row ! 3) @ '' | ''
                @ ljust 10 (row ! 4) @ newline))"

definition table_row ::
  "(line \<times> supplier \<times> material) list \<Rightarrow> (var \<Rightarrow> rat option) \<Rightarrow> rat dict dict \<Rightarrow> rat dict dict \<Rightarrow> line \<Rightarrow> error + string" where
  "table_row x vals ceramic_composition costs i =
     and_then (getitem ceramic_composition i) (\<lambda>c.
     and_then (for_each (\<lambda>m. found_supplier x vals i m (keys costs)) (keys c)) (\<lambda>cells.
       format_row (i # cells)))"

definition generate_formatted_table_with_suppliers ::
  "(line \<times> supplier \<times> material) list \<Rightarrow> (var \<Rightarrow> rat option) \<Rightarrow> rat dict dict \<Rightarrow> rat dict dict \<Rightarrow> error + string" where
  "generate_formatted_table_with_suppliers x vals ceramic_composition costs =
     and_then (for_each (table_row x vals ceramic_composition costs) (keys ceramic_composition))
       (\<lambda>rows. Inr (header @ divider @ concat rows))"

text \<open>
  Lines 82-121: solve, then print the detail view, the total cost and the table. An
  exception of the solve ends the script before anything is printed.
\<close>

definition report :: "built \<Rightarrow> solution \<Rightarrow> rat dict dict \<Rightarrow> rat dict dict \<Rightarrow> run" where
  "report b sol costs ceramic_composition =
     then_run (detail_view (x_dict b) (varValue sol) costs ceramic_composition)
    (then_run ([Total_Cost (objective_value (varValue sol) (objective (prob b)))], None)
       (case generate_formatted_table_with_suppliers (x_dict b) (varValue sol) ceramic_composition costs of
          Inl e \<Rightarrow> ([], Some e)
        | Inr t \<Rightarrow> ([Table t], None)))"

definition script :: "(model \<Rightarrow> error + solution) \<Rightarrow> rat dict \<Rightarrow> rat dict dict \<Rightarrow> rat dict dict \<Rightarrow> run" where
  "script solver demand costs ceramic_composition =
     (case build_model demand costs ceramic_composition of
        Inl e \<Rightarrow> ([], Some e)
      | Inr b \<Rightarrow>
          (case solver (prob b) of
             Inl e \<Rightarrow> ([], Some e)
           | Inr sol \<Rightarrow> report b sol costs ceramic_composition))"

section \<open>Sample data\<close>

text \<open>The price table of the script, and its first product line.\<close>

definition sample_costs :: "rat dict dict" where
  "sample_costs =
     [(''supplier 1'', [(''white'', 35), (''yellow'', 32), (''pink'', 45), (''gray'', 50)]),
      (''supplier 2'', [(''white'', 32), (''yellow'', 20), (''pink'', 30), (''gray'', 40)]),
      (''supplier 3'', [(''white'', 24), (''yellow'', 18), (''pink'', 20), (''gray'', 35)])]"

definition sample_demand :: "rat dict" where
  "sample_demand = [(''A1'', 7)]"

definition sample_composition :: "rat dict dict" where
  "sample_composition = [(''A1'', [(''white'', 58), (''yellow'', 38), (''pink'', 0), (''gray'', 4)])]"

text \<open>The price table without the pink price of supplier 2, and without that of supplier 3.\<close>

definition costs_no_pink_2 :: "rat dict dict" where
  "costs_no_pink_2 =
     [(''supplier 1'', [(''white'', 35), (''yellow'', 32), (''pink'', 45), (''gray'', 50)]),
      (''supplier 2'', [(''white'', 32), (''yellow'', 20), (''gray'', 40)]),
      (''supplier 3'', [(''white'', 24), (''yellow'', 18), (''pink'', 20), (''gray'', 35)])]"

definition costs_no_pink_3 :: "rat dict dict" where
  "costs_no_pink_3 =
     [(''supplier 1'', [(''white'', 35), (''yellow'', 32), (''pink'', 45), (''gray'', 50)]),
      (''supplier 2'', [(''white'', 32), (''yellow'', 20), (''pink'', 30), (''gray'', 40)]),
      (''supplier 3'', [(''white'', 24), (''yellow'', 18), (''gray'', 35)])]"

text \<open>The index tuples of \<^verbatim>\<open>x\<close> for the sample, in the order of line 42.\<close>

definition sample_x :: "(line \<times> supplier \<times> material) list" where
  "sample_x =
     [(''A1'', ''supplier 1'', ''white''), (''A1'', ''supplier 1'', ''yellow''),
      (''A1'', ''supplier 1'', ''pink''), (''A1'', ''supplier 1'', ''gray''),
      (''A1'', ''supplier 2'', ''white''), (''A1'', ''supplier 2'', ''yellow''),
      (''A1'', ''supplier 2'', ''pink''), (''A1'', ''supplier 2'', ''gray''),
      (''A1'', ''supplier 3'', ''white''), (''A1'', ''supplier 3'', ''yellow''),
      (''A1'', ''supplier 3'', ''pink''), (''A1'', ''supplier 3'', ''gray'')]"

text \<open>
  A feasible assignment for the sample: white from supplier 1, yellow from supplier 3,
  pink and gray from supplier 2; the 100 kg bought exceed the demand figure 7 by 93.
\<close>

definition sample_assignment :: "var \<Rightarrow> rat" where
  "sample_assignment v =
     (case v of
        X i s m \<Rightarrow>
          if s = ''supplier 1'' \<and> m = ''white'' then 58
          else if s = ''supplier 3'' \<and> m = ''yellow'' then 38
          else if s = ''supplier 2'' \<and> m = ''gray'' then 4
          else 0
      | Z i m s \<Rightarrow>
          if s = ''supplier 1'' \<and> m = ''white'' then 1
          else if s = ''supplier 3'' \<and> m = ''yellow'' then 1
          else if s = ''supplier 2'' \<and> m = ''pink'' then 1
          else if s = ''supplier 2'' \<and> m = ''gray'' then 1
          else 0
      | P_plus i \<Rightarrow> 93
      | P_minus i \<Rightarrow> 0)"

text \<open>
  A solver reply for the sample: status Optimal, with gray bought from supplier 1 and
  white and yellow from supplier 3.
\<close>

definition sample_reply :: "var \<Rightarrow> rat option" where
  "sample_reply v =
     (case v of
        X i s m \<Rightarrow>
          if s = ''supplier 1'' \<and> m = ''gray'' then Some 4
          else if s = ''supplier 3'' \<and> m = ''white'' then Some 58
          else if s = ''supplier 3'' \<and> m = ''yellow'' then Some 38
          else Some 0
      | Z i m s \<Rightarrow>
          if s = ''supplier 1'' \<and> m = ''gray'' then Some 1
          else if s = ''supplier 3'' \<and> m = ''white'' then Some 1
          else if s = ''supplier 3'' \<and> m = ''yellow'' then Some 1
          else if s = ''supplier 2'' \<and> m = ''pink'' then Some 1
          else Some 0
      | P_plus i \<Rightarrow> Some 93
      | P_minus i \<Rightarrow> Some 0)"

definition sample_solver :: "model \<Rightarrow> error + solution" where
  "sample_solver mdl = Inr \<lparr>status = Optimal, varValue = sample_reply\<rparr>"

text \<open>A solver that cannot run the problem.\<close>

definition failing_solver :: "model \<Rightarrow> error + solution" where
  "failing_solver mdl = Inl PulpSolverError"

text \<open>
  The sample line with every required quantity 0: the floor on supplier 1 cannot be met,
  so the model has no feasible assignment.
\<close>

definition zero_composition :: "rat dict dict" where
  "zero_composition = [(''A1'', [(''white'', 0), (''yellow'', 0), (''pink'', 0), (''gray'', 0)])]"

text \<open>
  A second sample for the summary table: one line with a composition of three or of five
  materials, the three suppliers of the price table, and solver values that give white to
  supplier 1, yellow and black to supplier 2, pink to supplier 3 and gray to nobody.
\<close>

definition three_materials :: "rat dict dict" where
  "three_materials = [(''E1'', [(''white'', 50), (''yellow'', 30), (''pink'', 20)])]"

definition five_materials :: "rat dict dict" where
  "five_materials =
     [(''E1'', [(''white'', 50), (''yellow'', 20), (''pink'', 10), (''gray'', 0), (''black'', 20)])]"

definition five_x :: "(line \<times> supplier \<times> material) list" where
  "five_x =
     [(''E1'', ''supplier 1'', ''white''), (''E1'', ''supplier 1'', ''yellow''),
      (''E1'', ''supplier 1'', ''pink''), (''E1'', ''supplier 1'', ''gray''),
      (''E1'', ''supplier 1'', ''black''),
      (''E1'', ''supplier 2'', ''white''), (''E1'', ''supplier 2'', ''yellow''),
      (''E1'', ''supplier 2'', ''pink''), (''E1'', ''supplier 2'', ''gray''),
      (''E1'', ''supplier 2'', ''black''),
      (''E1'', ''supplier 3'', ''white''), (''E1'', ''supplier 3'', ''yellow''),
      (''E1'', ''supplier 3'', ''pink''), (''E1'', ''supplier 3'', ''gray''),
      (''E1'', ''supplier 3'', ''black'')]"

definition five_values :: "var \<Rightarrow> rat option" where
  "five_values v =
     (case v of
        X i s m \<Rightarrow>
          if s = ''supplier 1'' \<and> m = ''white'' then Some 50
          else if s = ''supplier 2'' \<and> m = ''yellow'' then Some 20
          else if s = ''supplier 3'' \<and> m = ''pink'' then Some 10
          else if s = ''supplier 2'' \<and> m = ''black'' then Some 20
          else Some 0
      | _ \<Rightarrow> Some 0)"

text \<open>
  Solver values for the sample in which two suppliers carry white: supplier 1 the whole
  58 kg and supplier 2 a spurious billionth.
\<close>

definition spurious_values :: "var \<Rightarrow> rat option" where
  "spurious_values v =
     (case v of
        X i s m \<Rightarrow>
          if m = ''white'' \<and> s = ''supplier 1'' then Some 58
          else if m = ''white'' \<and> s = ''supplier 2'' then Some (1 / 1000000000)
          else Some 0
      | _ \<Rightarrow> Some 0)"

section \<open>The reports as the specification describes them\<close>

text \<open>
  The detail view: for every line a header, then for every material and every supplier
  whose value is not exactly 0 a purchase line, then a blank line.
\<close>

definition detail_lines :: "(var \<Rightarrow> rat option) \<Rightarrow> rat dict dict \<Rightarrow> rat dict dict \<Rightarrow> printed list" where
  "detail_lines vals costs ceramic_composition =
     concat (map (\<lambda>i.
       Header i
       # concat (map (\<lambda>m.
           map (\<lambda>s. Purchase m s (vals (X i s m)))
             (filter (\<lambda>s. vals (X i s m) \<noteq> Some 0) (keys costs)))
           (materials ceramic_composition i))
       @ [Blank])
       (keys ceramic_composition))"

text \<open>
  The summary table: the header with its four columns, the divider, and for every line
  one row with the name of the line and the labels of its first four materials, each
  cell padded on the right. The label of a material is that of the first supplier with a
  positive value, or \<^verbatim>\<open>"0"\<close> when there is none.
\<close>

definition pad :: "nat \<Rightarrow> string \<Rightarrow> string" where
  "pad n s = (if length s < n then s @ replicate (n - length s) CHR '' '' else s)"

definition chosen_label :: "(var \<Rightarrow> rat option) \<Rightarrow> rat dict dict \<Rightarrow> line \<Rightarrow> material \<Rightarrow> string" where
  "chosen_label vals costs i m =
     (case find (\<lambda>s. case vals (X i s m) of None \<Rightarrow> False | Some r \<Rightarrow> 0 < r) (keys costs) of
        None \<Rightarrow> ''0''
      | Some s \<Rightarrow> ''supplier '' @ [last s])"

definition table_header :: string where
  "table_header =
     ''Dental implantation | White      | Yellow     | Pink       | Gray      '' @ [CHR 0x0A]
     @ ''____________________________________________________________'' @ [CHR 0x0A]"

definition table_line :: "line \<Rightarrow> string list \<Rightarrow> string" where
  "table_line i cells =
     (case cells of
        c1 # c2 # c3 # c4 # further \<Rightarrow>
          pad 15 i @ '' | '' @ pad 10 c1 @ '' | '' @ pad 10 c2 @ '' | '' @ pad 10 c3
          @ '' | '' @ pad 10 c4 @ [CHR 0x0A]
      | _ \<Rightarrow> [])"

definition table_text :: "(var \<Rightarrow> rat option) \<Rightarrow> rat dict dict \<Rightarrow> rat dict dict \<Rightarrow> string" where
  "table_text vals costs ceramic_composition =
     table_header
     @ concat (map (\<lambda>i. table_line i (map (chosen_label vals costs i) (materials ceramic_composition i)))
         (keys ceramic_composition))"

text \<open>The composition table cut to the first four materials of every line.\<close>

definition first_four :: "rat dict dict \<Rightarrow> rat dict dict" where
  "first_four ceramic_composition = map (\<lambda>(i, c). (i, take 4 c)) ceramic_composition"

section \<open>Auxiliary facts\<close>

subsection \<open>Exceptions and loops\<close>

lemma and_then_Inr: "and_then r f = Inr y \<longleftrightarrow> (\<exists>v. r = Inr v \<and> f v = Inr y)"
  by (cases r) (simp_all add: and_then_def)

lemma and_then_Inl: "and_then r f = Inl e \<longleftrightarrow> (r = Inl e \<or> (\<exists>v. r = Inr v \<and> f v = Inl e))"
  by (cases r) (simp_all add: and_then_def)

lemma getitem_Inr: "getitem d k = Inr v \<longleftrightarrow> map_of d k = Some v"
  by (simp add: getitem_def split: option.splits)

lemma getitem_Inl: "getitem d k = Inl e \<Longrightarrow> e = KeyError (Name k)"
  by (simp add: getitem_def split: option.splits)

lemma getitem_x_Inr: "getitem_x x i s m = Inr v \<longleftrightarrow> (i, s, m) \<in> set x \<and> v = X i s m"
  by (auto simp: getitem_x_def)

lemma getitem_x_Inl: "getitem_x x i s m = Inl e \<Longrightarrow> e = KeyError (Triple i s m)"
  by (simp add: getitem_x_def split: if_splits)

lemma getitem_z_Inr: "getitem_z z i m s = Inr v \<longleftrightarrow> (i, m, s) \<in> set z \<and> v = Z i m s"
  by (auto simp: getitem_z_def)

lemma getitem_z_Inl: "getitem_z z i m s = Inl e \<Longrightarrow> e = KeyError (Triple i m s)"
  by (simp add: getitem_z_def split: if_splits)

lemma for_each_member:
  "for_each f xs = Inr ys \<Longrightarrow> x \<in> set xs \<Longrightarrow> \<exists>y \<in> set ys. f x = Inr y"
  by (induction xs arbitrary: ys) (auto split: sum.splits)

lemma for_each_eq_map:
  "for_each f xs = Inr ys \<Longrightarrow> (\<And>x y. x \<in> set xs \<Longrightarrow> f x = Inr y \<Longrightarrow> y = g x) \<Longrightarrow> ys = map g xs"
  by (induction xs arbitrary: ys) (auto split: sum.splits)

lemma for_each_Inl: "for_each f xs = Inl e \<Longrightarrow> \<exists>x \<in> set xs. f x = Inl e"
  by (induction xs) (auto split: sum.splits)

lemma for_each_length: "for_each f xs = Inr ys \<Longrightarrow> length ys = length xs"
  by (induction xs arbitrary: ys) (auto split: sum.splits)

lemma for_each_total_ball:
  "\<forall>x\<in>set xs. \<exists>y. f x = Inr y \<Longrightarrow> \<exists>ys. for_each f xs = Inr ys"
  by (induction xs) auto

lemma for_each_total:
  "(\<And>x. x \<in> set xs \<Longrightarrow> \<exists>y. f x = Inr y) \<Longrightarrow> \<exists>ys. for_each f xs = Inr ys"
  by (rule for_each_total_ball) blast

lemma for_each_one_error_ball:
  "\<forall>x\<in>set xs. f x = Inl e \<or> (\<exists>y. f x = Inr y)
     \<Longrightarrow> for_each f xs = Inl e \<or> (\<exists>ys. for_each f xs = Inr ys)"
  by (induction xs) auto

lemma for_each_one_error:
  "(\<And>x. x \<in> set xs \<Longrightarrow> f x = Inl e \<or> (\<exists>y. f x = Inr y))
     \<Longrightarrow> for_each f xs = Inl e \<or> (\<exists>ys. for_each f xs = Inr ys)"
  by (rule for_each_one_error_ball) blast

lemma for_each_fails_ball:
  "\<forall>x\<in>set xs. f x = Inl e \<or> (\<exists>y. f x = Inr y) \<Longrightarrow> \<exists>t\<in>set xs. f t = Inl e
     \<Longrightarrow> for_each f xs = Inl e"
proof (induction xs)
  case Nil
  then show ?case by simp
next
  case (Cons a xs)
  from Cons.prems(1) have a: "f a = Inl e \<or> (\<exists>y. f a = Inr y)" by simp
  then show ?case
  proof
    assume "f a = Inl e"
    then show ?thesis by simp
  next
    assume "\<exists>y. f a = Inr y"
    then obtain y where y: "f a = Inr y" by blast
    with Cons.prems(2) have "\<exists>t\<in>set xs. f t = Inl e" by auto
    with Cons.IH Cons.prems(1) have "for_each f xs = Inl e" by simp
    with y show ?thesis by simp
  qed
qed

lemma for_each_fails:
  "(\<And>x. x \<in> set xs \<Longrightarrow> f x = Inl e \<or> (\<exists>y. f x = Inr y)) \<Longrightarrow> t \<in> set xs \<Longrightarrow> f t = Inl e
     \<Longrightarrow> for_each f xs = Inl e"
  by (rule for_each_fails_ball) blast+

lemma for_each_cong_ball:
  "\<forall>x\<in>set xs. f x = g x \<Longrightarrow> for_each f xs = for_each g xs"
  by (induction xs) (auto split: sum.splits)

lemma for_each_cong_set:
  "(\<And>x. x \<in> set xs \<Longrightarrow> f x = g x) \<Longrightarrow> for_each f xs = for_each g xs"
  by (rule for_each_cong_ball) blast

lemma for_each_take:
  "for_each f xs = Inr ys \<Longrightarrow> for_each f (take n xs) = Inr (take n ys)"
proof (induction xs arbitrary: ys n)
  case Nil
  then show ?case by simp
next
  case (Cons a xs)
  then show ?case by (cases n) (auto split: sum.splits)
qed

lemma for_each_concat_Inr:
  "for_each_concat f xs = Inr ys \<longleftrightarrow> (\<exists>yss. for_each f xs = Inr yss \<and> ys = concat yss)"
  by (auto simp: for_each_concat_def and_then_Inr)

lemma for_each_concat_member:
  "for_each_concat f xs = Inr ys \<Longrightarrow> x \<in> set xs \<Longrightarrow> \<exists>zs. f x = Inr zs \<and> set zs \<subseteq> set ys"
  by (auto simp: for_each_concat_Inr dest!: for_each_member)

lemma for_each_origin:
  "for_each f xs = Inr ys \<Longrightarrow> y \<in> set ys \<Longrightarrow> \<exists>x \<in> set xs. f x = Inr y"
  by (induction xs arbitrary: ys) (auto split: sum.splits)

lemma for_each_concat_origin:
  "for_each_concat f xs = Inr ys \<Longrightarrow> y \<in> set ys \<Longrightarrow> \<exists>x \<in> set xs. \<exists>zs. f x = Inr zs \<and> y \<in> set zs"
proof -
  assume a: "for_each_concat f xs = Inr ys" and y: "y \<in> set ys"
  from a obtain yss where yss: "for_each f xs = Inr yss" and "ys = concat yss"
    by (auto simp: for_each_concat_Inr)
  with y obtain zs where "zs \<in> set yss" "y \<in> set zs" by auto
  with for_each_origin[OF yss this(1)] show ?thesis by blast
qed

lemma for_each_concat_eq:
  "for_each_concat f xs = Inr ys \<Longrightarrow> (\<And>x y. x \<in> set xs \<Longrightarrow> f x = Inr y \<Longrightarrow> y = g x)
     \<Longrightarrow> ys = concat (map g xs)"
proof -
  assume a: "for_each_concat f xs = Inr ys" and b: "\<And>x y. x \<in> set xs \<Longrightarrow> f x = Inr y \<Longrightarrow> y = g x"
  from a obtain yss where "for_each f xs = Inr yss" and ys: "ys = concat yss"
    by (auto simp: for_each_concat_Inr)
  from for_each_eq_map[OF this(1) b] ys show ?thesis by simp
qed

lemma for_each_concat_Inl: "for_each_concat f xs = Inl e \<Longrightarrow> \<exists>x \<in> set xs. f x = Inl e"
  by (auto simp: for_each_concat_def and_then_Inl dest: for_each_Inl)

lemma for_each_map:
  "\<forall>x\<in>set xs. f x = Inr (g x) \<Longrightarrow> for_each f xs = Inr (map g xs)"
  by (induction xs) simp_all

lemma for_each_concat_total:
  "\<forall>x\<in>set xs. \<exists>y. f x = Inr y \<Longrightarrow> \<exists>ys. for_each_concat f xs = Inr ys"
  by (auto simp: for_each_concat_def and_then_def dest!: for_each_total_ball)

lemma sum_list_map_concat:
  fixes f :: "'a \<Rightarrow> rat"
  shows "sum_list (map f (concat xss)) = (\<Sum>xs\<leftarrow>xss. sum_list (map f xs))"
  by (induction xss) simp_all

lemma for_each_sum:
  fixes g :: "'b \<Rightarrow> rat"
  shows "for_each f xs = Inr ys \<Longrightarrow> (\<And>x y. x \<in> set xs \<Longrightarrow> f x = Inr y \<Longrightarrow> g y = h x)
     \<Longrightarrow> (\<Sum>y\<leftarrow>ys. g y) = (\<Sum>x\<leftarrow>xs. h x)"
  by (induction xs arbitrary: ys) (auto split: sum.splits)

lemma for_each_concat_sum:
  fixes g :: "'b \<Rightarrow> rat"
  assumes "for_each_concat f xs = Inr ys"
    and "\<And>x zs. x \<in> set xs \<Longrightarrow> f x = Inr zs \<Longrightarrow> (\<Sum>z\<leftarrow>zs. g z) = h x"
  shows "(\<Sum>y\<leftarrow>ys. g y) = (\<Sum>x\<leftarrow>xs. h x)"
proof -
  from assms(1) obtain yss where yss: "for_each f xs = Inr yss" and ys: "ys = concat yss"
    by (auto simp: for_each_concat_Inr)
  have "(\<Sum>zs\<leftarrow>yss. sum_list (map g zs)) = (\<Sum>x\<leftarrow>xs. h x)"
    by (rule for_each_sum[OF yss]) (rule assms(2))
  with ys show ?thesis by (simp add: sum_list_map_concat)
qed

lemma run_all_ok:
  "(\<And>a. a \<in> set as \<Longrightarrow> f a = (g a, None)) \<Longrightarrow> run_all f as = (concat (map g as), None)"
  by (induction as) (simp_all add: then_run_def)

subsection \<open>Dictionaries\<close>

lemma map_of_keys: "map_of d k = Some v \<Longrightarrow> k \<in> set (keys d)"
  by (auto simp: keys_def dest: map_of_SomeD intro: rev_image_eqI)

lemma keys_map_of: "k \<in> set (keys d) \<Longrightarrow> \<exists>v. map_of d k = Some v"
  by (metis keys_def map_of_eq_None_iff not_Some_eq set_map)

lemma materials_Some: "map_of p i = Some c \<Longrightarrow> materials p i = keys c"
  by (simp add: materials_def)

lemma materials_cases:
  "m \<in> set (materials p i) \<Longrightarrow> \<exists>c. map_of p i = Some c \<and> m \<in> set (keys c)"
  by (cases "map_of p i") (simp_all add: materials_def)

lemma materials_member:
  "m \<in> set (materials p i) \<Longrightarrow> \<exists>c q. map_of p i = Some c \<and> map_of c m = Some q"
  by (blast dest: materials_cases keys_map_of)

lemma getitem_xs_eq:
  "for_each (\<lambda>s. getitem_x x i s m) ss = Inr vs \<Longrightarrow> vs = map (\<lambda>s. X i s m) ss"
  by (erule for_each_eq_map) (simp add: getitem_x_Inr)

lemma getitem_xm_eq:
  "for_each (\<lambda>m. getitem_x x i s m) ms = Inr vs \<Longrightarrow> vs = map (\<lambda>m. X i s m) ms"
  by (erule for_each_eq_map) (simp add: getitem_x_Inr)

lemma getitem_zs_eq:
  "for_each (\<lambda>s. getitem_z z i m s) ss = Inr vs \<Longrightarrow> vs = map (\<lambda>s. Z i m s) ss"
  by (erule for_each_eq_map) (simp add: getitem_z_Inr)

lemma getitem_zm_eq:
  "for_each (\<lambda>m. getitem_z z i m s) ms = Inr vs \<Longrightarrow> vs = map (\<lambda>m. Z i m s) ms"
  by (erule for_each_eq_map) (simp add: getitem_z_Inr)

lemma keys_take: "keys (take n c) = take n (keys c)"
  by (simp add: keys_def take_map)

lemma keys_first_four: "keys (first_four p) = keys p"
  by (simp add: keys_def first_four_def case_prod_unfold comp_def)

lemma map_of_first_four: "map_of (first_four p) i = map_option (take 4) (map_of p i)"
  by (induction p) (auto simp: first_four_def)

subsection \<open>The value of an expression\<close>

lemma value_of_add: "value_of a (add e1 e2) = value_of a e1 + value_of a e2"
  by (simp add: value_of_def add_def)

lemma scale_zero: "scale 0 e = of_num 0"
  by (simp add: scale_def of_num_def)

lemma value_of_scale: "value_of a (scale k e) = k * value_of a e"
  by (simp add: value_of_def scale_def comp_def case_prod_unfold sum_list_const_mult distrib_left mult.assoc)

lemma value_of_of_var: "value_of a (of_var v) = a v"
  by (simp add: value_of_def of_var_def)

lemma value_of_of_num: "value_of a (of_num c) = c"
  by (simp add: value_of_def of_num_def)

lemma value_of_sub: "value_of a (sub e1 e2) = value_of a e1 - value_of a e2"
  by (simp add: sub_def value_of_add value_of_scale)

lemma value_of_lpSum: "value_of a (lpSum es) = sum_list (map (value_of a) es)"
  by (induction es) (simp_all add: lpSum_def value_of_add value_of_of_num)

lemma value_of_lpSum_vars: "value_of a (lpSum (map of_var vs)) = sum_list (map a vs)"
  by (simp add: value_of_lpSum comp_def value_of_of_var)

lemma value_of_lpSum_gen:
  "value_of a (lpSum (map (\<lambda>x. of_var (f x)) xs)) = (\<Sum>x\<leftarrow>xs. a (f x))"
  by (simp add: value_of_lpSum comp_def value_of_of_var)

lemma coeffs_lpSum_vars: "map fst (coeffs (lpSum (map (\<lambda>x. of_var (f x)) xs))) = map f xs"
  by (induction xs) (simp_all add: lpSum_def add_def of_var_def of_num_def)

lemma feasible_constraint: "feasible mdl a \<Longrightarrow> c \<in> set (constraints mdl) \<Longrightarrow> satisfies a c"
  by (simp add: feasible_def list_all_iff)

lemma feasible_domain: "feasible mdl a \<Longrightarrow> d \<in> set (variables mdl) \<Longrightarrow> in_domain a d"
  by (simp add: feasible_def list_all_iff)

lemma sum_binary_zero:
  fixes f :: "'a \<Rightarrow> rat"
  assumes "\<And>s. s \<in> set ss \<Longrightarrow> f s = 0 \<or> f s = 1" "(\<Sum>s\<leftarrow>ss. f s) = 0" "s \<in> set ss"
  shows "f s = 0"
proof -
  have "0 \<le> f t" if "t \<in> set ss" for t using assms(1)[OF that] by auto
  then have nn: "\<forall>v\<in>set (map f ss). 0 \<le> v" by auto
  have "sum_list (map f ss) = 0 \<longleftrightarrow> (\<forall>v\<in>set (map f ss). v = 0)"
    by (rule sum_list_nonneg_eq_0_iff) (use nn in blast)
  with assms(2,3) show ?thesis by simp

qed

lemma sum_binary_one:
  fixes f :: "'a \<Rightarrow> rat"
  shows "(\<And>s. s \<in> set ss \<Longrightarrow> f s = 0 \<or> f s = 1) \<Longrightarrow> (\<Sum>s\<leftarrow>ss. f s) = 1
     \<Longrightarrow> \<exists>!s. s \<in> set ss \<and> f s = 1"
proof (induction ss)
  case Nil
  then show ?case by simp
next
  case (Cons t ss)
  have bin: "\<And>s. s \<in> set ss \<Longrightarrow> f s = 0 \<or> f s = 1" using Cons.prems(1) by simp
  from Cons.prems(1) have "f t = 0 \<or> f t = 1" by simp
  then show ?case
  proof
    assume t: "f t = 0"
    with Cons.prems(2) have "(\<Sum>s\<leftarrow>ss. f s) = 1" by simp
    from Cons.IH[OF bin this] t show ?thesis by auto
  next
    assume t: "f t = 1"
    with Cons.prems(2) have "(\<Sum>s\<leftarrow>ss. f s) = 0" by simp
    from sum_binary_zero[OF bin this] have "\<And>s. s \<in> set ss \<Longrightarrow> f s = 0" .
    with t show ?thesis by (intro ex1I[of _ t]) auto
  qed
qed

lemma sum_nonneg_zero:
  fixes f :: "'a \<Rightarrow> rat"
  assumes "\<forall>s\<in>set ss. 0 \<le> f s" "(\<Sum>s\<leftarrow>ss. f s) = 0" "s \<in> set ss"
  shows "f s = 0"
proof -
  from assms(1) have nn: "\<forall>v\<in>set (map f ss). 0 \<le> v" by auto
  have "sum_list (map f ss) = 0 \<longleftrightarrow> (\<forall>v\<in>set (map f ss). v = 0)"
    by (rule sum_list_nonneg_eq_0_iff) (use nn in blast)
  with assms(2,3) show ?thesis by simp
qed

lemma sum_list_all_zero:
  fixes f :: "'a \<Rightarrow> rat"
  shows "\<forall>x\<in>set xs. f x = 0 \<Longrightarrow> (\<Sum>x\<leftarrow>xs. f x) = 0"
  by (induction xs) simp_all

subsection \<open>The steps of the construction\<close>

lemma build_model_Inr:
  assumes "build_model d c p = Inr b"
  obtains x z obj r1 r2 r3 r4 r5 where
    "x_indices d c p = Inr x" "z_indices d c p = Inr z" "objective_expr x d c p = Inr obj"
    "restriction1 x d p = Inr r1" "restriction2 z d p = Inr r2" "restriction3 x c p = Inr r3"
    "restriction4 x d c p = Inr r4" "restriction5 x z d c p = Inr r5"
    "x_dict b = x" "z_dict b = z" "objective (prob b) = obj" "direction (prob b) = LpMinimize"
    "constraints (prob b) = r1 @ r2 @ r3 @ r4 @ r5"
    "variables (prob b) = map x_decl x @ map p_plus_decl (keys d) @ map p_minus_decl (keys d) @ map z_decl z"
  using assms unfolding build_model_def and_then_Inr by auto

lemma x_indices_member:
  assumes "x_indices d c p = Inr x" "i \<in> set (keys d)" "s \<in> set (keys c)"
    "m \<in> set (materials p i)"
  shows "(i, s, m) \<in> set x"
proof -
  from assms(4) obtain cc where cc: "map_of p i = Some cc" "m \<in> set (keys cc)"
    by (blast dest: materials_cases)
  from assms(1,2) obtain ys where ys: "set ys \<subseteq> set x"
    and "for_each_concat (\<lambda>s. and_then (getitem p i) (\<lambda>c. Inr (map (\<lambda>m. (i, s, m)) (keys c)))) (keys c) = Inr ys"
    unfolding x_indices_def by (blast dest: for_each_concat_member)
  from for_each_concat_member[OF this(2) assms(3)] cc ys show ?thesis
    by (auto simp: and_then_Inr getitem_Inr)
qed

lemma x_indices_lines:
  assumes "x_indices d c p = Inr x" "(i, s, m) \<in> set x"
  shows "i \<in> set (keys d)"
proof -
  from for_each_concat_origin[OF assms(1)[unfolded x_indices_def] assms(2)]
  obtain j zs where j: "j \<in> set (keys d)"
    and zs: "for_each_concat (\<lambda>s. and_then (getitem p j) (\<lambda>c. Inr (map (\<lambda>m. (j, s, m)) (keys c)))) (keys c) = Inr zs"
    and mem: "(i, s, m) \<in> set zs"
    by blast
  from for_each_concat_origin[OF zs mem] have "i = j"
    by (auto simp: and_then_Inr)
  with j show ?thesis by simp
qed

lemma z_indices_member:
  assumes "z_indices d c p = Inr z" "i \<in> set (keys d)" "s \<in> set (keys c)"
    "m \<in> set (materials p i)"
  shows "(i, m, s) \<in> set z"
proof -
  from assms(4) obtain cc where cc: "map_of p i = Some cc" "m \<in> set (keys cc)"
    by (blast dest: materials_cases)
  from assms(1,2) obtain ys where ys: "set ys \<subseteq> set z"
    and "and_then (getitem p i) (\<lambda>cc. Inr (concat (map (\<lambda>m. map (\<lambda>s. (i, m, s)) (keys c)) (keys cc)))) = Inr ys"
    unfolding z_indices_def by (blast dest: for_each_concat_member)
  with cc have "ys = concat (map (\<lambda>m. map (\<lambda>s. (i, m, s)) (keys c)) (keys cc))"
    by (auto simp: and_then_Inr getitem_Inr)
  with cc(2) assms(3) have "(i, m, s) \<in> set ys" by auto
  with ys show ?thesis by blast
qed

lemma restriction1_eq:
  assumes "restriction1 x d p = Inr r1"
  shows "r1 = map (\<lambda>i. \<lparr>lhs = lpSum (map (\<lambda>m. of_var (X i ''supplier 1'' m)) (materials p i)),
                         sense = GE, rhs = of_num 1\<rparr>) (keys d)"
proof (rule for_each_eq_map[OF assms[unfolded restriction1_def]])
  fix i y
  assume "and_then (getitem p i) (\<lambda>c.
       and_then (for_each (\<lambda>m. getitem_x x i ''supplier 1'' m) (keys c)) (\<lambda>vs.
         Inr \<lparr>lhs = lpSum (map of_var vs), sense = GE, rhs = of_num 1\<rparr>)) = Inr y"
  then show "y = \<lparr>lhs = lpSum (map (\<lambda>m. of_var (X i ''supplier 1'' m)) (materials p i)),
                         sense = GE, rhs = of_num 1\<rparr>"
    by (auto simp: and_then_Inr getitem_Inr materials_Some comp_def dest!: getitem_xm_eq)
qed

lemma restriction2_eq:
  assumes "restriction2 z d p = Inr r2"
  shows "r2 = map (\<lambda>i. \<lparr>lhs = lpSum (map (\<lambda>m. of_var (Z i m ''supplier 3'')) (materials p i)),
                         sense = LE, rhs = of_num 2\<rparr>) (keys d)"
proof (rule for_each_eq_map[OF assms[unfolded restriction2_def]])
  fix i y
  assume "and_then (getitem p i) (\<lambda>c.
       and_then (for_each (\<lambda>m. getitem_z z i m ''supplier 3'') (keys c)) (\<lambda>vs.
         Inr \<lparr>lhs = lpSum (map of_var vs), sense = LE, rhs = of_num 2\<rparr>)) = Inr y"
  then show "y = \<lparr>lhs = lpSum (map (\<lambda>m. of_var (Z i m ''supplier 3'')) (materials p i)),
                         sense = LE, rhs = of_num 2\<rparr>"
    by (auto simp: and_then_Inr getitem_Inr materials_Some comp_def dest!: getitem_zm_eq)
qed

lemma restriction3_member:
  assumes "restriction3 x c p = Inr r3" "map_of p i = Some cc" "map_of cc m = Some q"
  shows "\<lparr>lhs = lpSum (map of_var (map (\<lambda>s. X i s m) (keys c))), sense = EQ, rhs = of_num q\<rparr> \<in> set r3"
proof -
  from assms(2) have "i \<in> set (keys p)" by (rule map_of_keys)
  with assms(1) obtain zs where zs: "set zs \<subseteq> set r3"
    and "and_then (getitem p i) (\<lambda>c'.
         for_each (\<lambda>m.
           and_then (for_each (\<lambda>s. getitem_x x i s m) (keys c)) (\<lambda>vs.
           and_then (getitem p i) (\<lambda>c'.
           and_then (getitem c' m) (\<lambda>q.
             Inr \<lparr>lhs = lpSum (map of_var vs), sense = EQ, rhs = of_num q\<rparr>))))
           (keys c')) = Inr zs"
    unfolding restriction3_def by (blast dest: for_each_concat_member)
  with assms(2) have inner: "for_each (\<lambda>m.
           and_then (for_each (\<lambda>s. getitem_x x i s m) (keys c)) (\<lambda>vs.
           and_then (getitem p i) (\<lambda>c'.
           and_then (getitem c' m) (\<lambda>q.
             Inr \<lparr>lhs = lpSum (map of_var vs), sense = EQ, rhs = of_num q\<rparr>))))
           (keys cc) = Inr zs"
    by (simp add: and_then_Inr getitem_Inr)
  from assms(3) have "m \<in> set (keys cc)" by (rule map_of_keys)
  from for_each_member[OF inner this] obtain y where "y \<in> set zs"
    and "and_then (for_each (\<lambda>s. getitem_x x i s m) (keys c)) (\<lambda>vs.
           and_then (getitem p i) (\<lambda>c'.
           and_then (getitem c' m) (\<lambda>q.
             Inr \<lparr>lhs = lpSum (map of_var vs), sense = EQ, rhs = of_num q\<rparr>))) = Inr y"
    by blast
  with assms(2,3) have "y = \<lparr>lhs = lpSum (map of_var (map (\<lambda>s. X i s m) (keys c))), sense = EQ, rhs = of_num q\<rparr>"
    by (auto simp: and_then_Inr getitem_Inr dest!: getitem_xs_eq)
  with \<open>y \<in> set zs\<close> zs show ?thesis by blast
qed

lemma restriction3_indices:
  assumes "restriction3 x c p = Inr r3" "i \<in> set (keys p)" "m \<in> set (materials p i)"
    "s \<in> set (keys c)"
  shows "(i, s, m) \<in> set x"
proof -
  from assms(3) obtain cc where cc: "map_of p i = Some cc" "m \<in> set (keys cc)"
    by (blast dest: materials_cases)
  let ?body = "\<lambda>m. and_then (for_each (\<lambda>s. getitem_x x i s m) (keys c)) (\<lambda>vs.
           and_then (getitem p i) (\<lambda>c'.
           and_then (getitem c' m) (\<lambda>q.
             Inr \<lparr>lhs = lpSum (map of_var vs), sense = EQ, rhs = of_num q\<rparr>)))"
  from assms(1,2) obtain zs where
    "and_then (getitem p i) (\<lambda>c'. for_each ?body (keys c')) = Inr zs"
    unfolding restriction3_def by (blast dest: for_each_concat_member)
  with cc(1) have "for_each ?body (keys cc) = Inr zs"
    by (simp add: and_then_Inr getitem_Inr)
  from for_each_member[OF this cc(2)] obtain vs where
    "for_each (\<lambda>s. getitem_x x i s m) (keys c) = Inr vs"
    by (auto simp: and_then_Inr)
  from for_each_member[OF this assms(4)] show ?thesis
    by (auto simp: getitem_x_Inr)
qed

lemma restriction4_member:
  assumes "restriction4 x d c p = Inr r4" "map_of d i = Some dm"
  shows "\<lparr>lhs = lpSum (map of_var (concat (map (\<lambda>s. map (\<lambda>m. X i s m) (materials p i)) (keys c)))),
          sense = EQ, rhs = sub (add (of_num dm) (of_var (P_plus i))) (of_var (P_minus i))\<rparr> \<in> set r4"
proof -
  let ?per = "\<lambda>s. and_then (getitem p i) (\<lambda>cc. for_each (\<lambda>m. getitem_x x i s m) (keys cc))"
  from assms(2) have "i \<in> set (keys d)" by (rule map_of_keys)
  from for_each_member[OF assms(1)[unfolded restriction4_def] this]
  obtain y where y: "y \<in> set r4"
    and "and_then (for_each_concat ?per (keys c)) (\<lambda>vs.
         and_then (getitem d i) (\<lambda>dm.
           Inr \<lparr>lhs = lpSum (map of_var vs), sense = EQ,
                rhs = sub (add (of_num dm) (of_var (P_plus i))) (of_var (P_minus i))\<rparr>)) = Inr y"
    by blast
  with assms(2) obtain vs where vs: "for_each_concat ?per (keys c) = Inr vs"
    and yeq: "y = \<lparr>lhs = lpSum (map of_var vs), sense = EQ,
                rhs = sub (add (of_num dm) (of_var (P_plus i))) (of_var (P_minus i))\<rparr>"
    by (auto simp: and_then_Inr getitem_Inr)
  have "vs = concat (map (\<lambda>s. map (\<lambda>m. X i s m) (materials p i)) (keys c))"
  proof (rule for_each_concat_eq[OF vs])
    fix s ws assume "?per s = Inr ws"
    then obtain cc where "map_of p i = Some cc" "for_each (\<lambda>m. getitem_x x i s m) (keys cc) = Inr ws"
      by (auto simp: and_then_Inr getitem_Inr)
    then show "ws = map (\<lambda>m. X i s m) (materials p i)"
      by (simp add: materials_Some getitem_xm_eq)
  qed
  with y yeq show ?thesis by simp
qed

lemma restriction5_member:
  assumes "restriction5 x z d c p = Inr r5" "i \<in> set (keys d)" "map_of p i = Some cc"
    "map_of cc m = Some q"
  shows "\<lparr>lhs = lpSum (map (\<lambda>s. of_var (Z i m s)) (keys c)), sense = EQ, rhs = of_num 1\<rparr> \<in> set r5"
    and "s \<in> set (keys c) \<Longrightarrow>
         \<lparr>lhs = of_var (X i s m), sense = LE, rhs = scale q (of_var (Z i m s))\<rparr> \<in> set r5"
proof -
  let ?link = "\<lambda>m s. and_then (getitem_x x i s m) (\<lambda>xv.
               and_then (getitem_z z i m s) (\<lambda>zv.
               and_then (getitem p i) (\<lambda>c'.
               and_then (getitem c' m) (\<lambda>q.
                 Inr \<lparr>lhs = of_var xv, sense = LE, rhs = scale q (of_var zv)\<rparr>))))"
  let ?pair = "\<lambda>m. and_then (for_each (\<lambda>s. getitem_z z i m s) (keys c)) (\<lambda>zs.
           and_then (for_each (?link m) (keys c)) (\<lambda>links.
             Inr (\<lparr>lhs = lpSum (map of_var zs), sense = EQ, rhs = of_num 1\<rparr> # links)))"
  from assms(1,2) obtain ys where ys: "set ys \<subseteq> set r5"
    and "and_then (getitem p i) (\<lambda>c'. for_each_concat ?pair (keys c')) = Inr ys"
    unfolding restriction5_def by (blast dest: for_each_concat_member)
  with assms(3) have "for_each_concat ?pair (keys cc) = Inr ys"
    by (simp add: and_then_Inr getitem_Inr)
  moreover from assms(4) have "m \<in> set (keys cc)" by (rule map_of_keys)
  ultimately obtain ws where ws: "set ws \<subseteq> set ys" and "?pair m = Inr ws"
    by (blast dest: for_each_concat_member)
  then obtain zs links where zs: "for_each (\<lambda>s. getitem_z z i m s) (keys c) = Inr zs"
    and links: "for_each (?link m) (keys c) = Inr links"
    and w: "ws = \<lparr>lhs = lpSum (map of_var zs), sense = EQ, rhs = of_num 1\<rparr> # links"
    by (auto simp: and_then_Inr)
  from getitem_zs_eq[OF zs] w ws ys
  show "\<lparr>lhs = lpSum (map (\<lambda>s. of_var (Z i m s)) (keys c)), sense = EQ, rhs = of_num 1\<rparr> \<in> set r5"
    by (auto simp: comp_def)
  assume "s \<in> set (keys c)"
  from for_each_member[OF links this] obtain l where "l \<in> set links" "?link m s = Inr l"
    by blast
  with assms(3,4) w ws ys
  show "\<lparr>lhs = of_var (X i s m), sense = LE, rhs = scale q (of_var (Z i m s))\<rparr> \<in> set r5"
    by (auto simp: and_then_Inr getitem_Inr getitem_x_Inr getitem_z_Inr)
qed

lemma purchase_terms_price:
  assumes "purchase_terms x d c p = Inr ts" "i \<in> set (keys d)" "s \<in> set (keys c)"
    "m \<in> set (materials p i)" "map_of c s = Some prices"
  shows "map_of prices m \<noteq> None"
proof -
  from assms(4) obtain cc where cc: "map_of p i = Some cc" "m \<in> set (keys cc)"
    by (blast dest: materials_cases)
  let ?priced = "\<lambda>s m. and_then (getitem_x x i s m) (\<lambda>v.
             and_then (getitem c s) (\<lambda>prices.
             and_then (getitem prices m) (\<lambda>p. Inr (scale p (of_var v)))))"
  from assms(1,2) obtain ys where
    "for_each_concat (\<lambda>s. and_then (getitem p i) (\<lambda>cc. for_each (?priced s) (keys cc))) (keys c) = Inr ys"
    unfolding purchase_terms_def by (blast dest: for_each_concat_member)
  from for_each_concat_member[OF this assms(3)] cc(1)
  obtain zs where "for_each (?priced s) (keys cc) = Inr zs"
    by (auto simp: and_then_Inr getitem_Inr)
  from for_each_member[OF this cc(2)] assms(5) show ?thesis
    by (auto simp: and_then_Inr getitem_Inr)
qed

lemma purchase_terms_value:
  assumes "purchase_terms x d c p = Inr ts"
  shows "(\<Sum>t\<leftarrow>ts. value_of a t)
         = (\<Sum>i\<leftarrow>keys d. \<Sum>s\<leftarrow>keys c. \<Sum>m\<leftarrow>materials p i. a (X i s m) * price c s m)"
proof (rule for_each_concat_sum[OF assms[unfolded purchase_terms_def]])
  fix i ys
  assume "for_each_concat (\<lambda>s.
         and_then (getitem p i) (\<lambda>cc.
           for_each (\<lambda>m.
             and_then (getitem_x x i s m) (\<lambda>v.
             and_then (getitem c s) (\<lambda>prices.
             and_then (getitem prices m) (\<lambda>pr.
               Inr (scale pr (of_var v))))))
             (keys cc)))
         (keys c) = Inr ys"
  then show "(\<Sum>t\<leftarrow>ys. value_of a t) = (\<Sum>s\<leftarrow>keys c. \<Sum>m\<leftarrow>materials p i. a (X i s m) * price c s m)"
  proof (rule for_each_concat_sum)
    fix s zs
    assume "and_then (getitem p i) (\<lambda>cc.
           for_each (\<lambda>m.
             and_then (getitem_x x i s m) (\<lambda>v.
             and_then (getitem c s) (\<lambda>prices.
             and_then (getitem prices m) (\<lambda>pr.
               Inr (scale pr (of_var v))))))
             (keys cc)) = Inr zs"
    then obtain cc where cc: "map_of p i = Some cc"
      and zs: "for_each (\<lambda>m.
             and_then (getitem_x x i s m) (\<lambda>v.
             and_then (getitem c s) (\<lambda>prices.
             and_then (getitem prices m) (\<lambda>pr.
               Inr (scale pr (of_var v))))))
             (keys cc) = Inr zs"
      by (auto simp: and_then_Inr getitem_Inr)
    have "(\<Sum>t\<leftarrow>zs. value_of a t) = (\<Sum>m\<leftarrow>keys cc. a (X i s m) * price c s m)"
      by (rule for_each_sum[OF zs])
         (auto simp: and_then_Inr getitem_Inr getitem_x_Inr value_of_scale value_of_of_var price_def)
    with cc show "(\<Sum>t\<leftarrow>zs. value_of a t) = (\<Sum>m\<leftarrow>materials p i. a (X i s m) * price c s m)"
      by (simp add: materials_Some)
  qed
qed

lemma x_indices_Inl: "x_indices d c p = Inl e \<Longrightarrow> \<exists>k. e = KeyError k"
  unfolding x_indices_def
  by (auto simp: and_then_Inl dest!: for_each_concat_Inl getitem_Inl)

lemma z_indices_Inl: "z_indices d c p = Inl e \<Longrightarrow> \<exists>k. e = KeyError k"
  unfolding z_indices_def
  by (auto simp: and_then_Inl dest!: for_each_concat_Inl getitem_Inl)

lemma objective_expr_Inl: "objective_expr x d c p = Inl e \<Longrightarrow> \<exists>k. e = KeyError k"
  unfolding objective_expr_def purchase_terms_def
  by (auto simp: and_then_Inl dest!: for_each_concat_Inl for_each_Inl getitem_Inl getitem_x_Inl)

lemma restriction1_Inl: "restriction1 x d p = Inl e \<Longrightarrow> \<exists>k. e = KeyError k"
  unfolding restriction1_def
  by (auto simp: and_then_Inl dest!: for_each_concat_Inl for_each_Inl getitem_Inl getitem_x_Inl)

lemma restriction2_Inl: "restriction2 z d p = Inl e \<Longrightarrow> \<exists>k. e = KeyError k"
  unfolding restriction2_def
  by (auto simp: and_then_Inl dest!: for_each_concat_Inl for_each_Inl getitem_Inl getitem_z_Inl)

lemma restriction3_Inl: "restriction3 x c p = Inl e \<Longrightarrow> \<exists>k. e = KeyError k"
  unfolding restriction3_def
  by (auto simp: and_then_Inl dest!: for_each_concat_Inl for_each_Inl getitem_Inl getitem_x_Inl)

lemma restriction4_Inl: "restriction4 x d c p = Inl e \<Longrightarrow> \<exists>k. e = KeyError k"
  unfolding restriction4_def
  by (auto simp: and_then_Inl dest!: for_each_concat_Inl for_each_Inl getitem_Inl getitem_x_Inl)

lemma restriction5_Inl: "restriction5 x z d c p = Inl e \<Longrightarrow> \<exists>k. e = KeyError k"
  unfolding restriction5_def
  by (auto simp: and_then_Inl dest!: for_each_concat_Inl for_each_Inl getitem_Inl getitem_x_Inl getitem_z_Inl)

lemma build_model_Inl: "build_model d c p = Inl e \<Longrightarrow> \<exists>k. e = KeyError k"
  unfolding build_model_def and_then_Inl
  by (elim disjE exE conjE)
     (erule x_indices_Inl z_indices_Inl objective_expr_Inl restriction1_Inl restriction2_Inl
        restriction3_Inl restriction4_Inl restriction5_Inl | simp)+

lemma x_indices_total:
  assumes "\<forall>j\<in>set (keys d). map_of p j \<noteq> None"
  shows "\<exists>x. x_indices d c p = Inr x"
  unfolding x_indices_def
proof (rule for_each_concat_total, rule ballI)
  fix i assume "i \<in> set (keys d)"
  with assms obtain cc where "map_of p i = Some cc" by auto
  then show "\<exists>y. for_each_concat (\<lambda>s. and_then (getitem p i)
                 (\<lambda>c. Inr (map (\<lambda>m. (i, s, m)) (keys c)))) (keys c) = Inr y"
    by (intro for_each_concat_total) (simp add: getitem_def and_then_def)
qed

lemma z_indices_total:
  assumes "\<forall>j\<in>set (keys d). map_of p j \<noteq> None"
  shows "\<exists>z. z_indices d c p = Inr z"
  unfolding z_indices_def
proof (rule for_each_concat_total, rule ballI)
  fix i assume "i \<in> set (keys d)"
  with assms obtain cc where "map_of p i = Some cc" by auto
  then show "\<exists>y. and_then (getitem p i)
       (\<lambda>cc. Inr (concat (map (\<lambda>m. map (\<lambda>s. (i, m, s)) (keys c)) (keys cc)))) = Inr y"
    by (simp add: getitem_def and_then_def)
qed

lemma purchase_terms_Inl:
  assumes "purchase_terms x d c p = Inl e"
    and x: "x_indices d c p = Inr x"
  shows "\<exists>i s prices m. i \<in> set (keys d) \<and> m \<in> set (materials p i) \<and> map_of c s = Some prices
           \<and> map_of prices m = None \<and> e = KeyError (Name m)"
proof -
  let ?priced = "\<lambda>i s m. and_then (getitem_x x i s m) (\<lambda>v.
             and_then (getitem c s) (\<lambda>prices.
             and_then (getitem prices m) (\<lambda>pr. Inr (scale pr (of_var v)))))"
  from for_each_concat_Inl[OF assms(1)[unfolded purchase_terms_def]]
  obtain i where i: "i \<in> set (keys d)"
    and "for_each_concat (\<lambda>s. and_then (getitem p i) (\<lambda>cc. for_each (?priced i s) (keys cc)))
           (keys c) = Inl e"
    by blast
  from for_each_concat_Inl[OF this(2)]
  obtain s where s: "s \<in> set (keys c)"
    and inner: "and_then (getitem p i) (\<lambda>cc. for_each (?priced i s) (keys cc)) = Inl e"
    by blast
  from for_each_concat_member[OF x[unfolded x_indices_def] i]
  obtain ys where "for_each_concat (\<lambda>s. and_then (getitem p i)
         (\<lambda>c. Inr (map (\<lambda>m. (i, s, m)) (keys c)))) (keys c) = Inr ys"
    by blast
  from for_each_concat_member[OF this s] obtain cc where cc: "map_of p i = Some cc"
    by (auto simp: and_then_Inr getitem_Inr)
  with inner have "for_each (?priced i s) (keys cc) = Inl e"
    by (simp add: getitem_def and_then_def)
  from for_each_Inl[OF this] obtain m where m: "m \<in> set (keys cc)"
    and pr: "?priced i s m = Inl e"
    by blast
  from cc m have mm: "m \<in> set (materials p i)" by (simp add: materials_Some)
  from x_indices_member[OF x i s mm] have "getitem_x x i s m = Inr (X i s m)"
    by (simp add: getitem_x_def)
  moreover from s obtain prices where prices: "map_of c s = Some prices"
    by (blast dest: keys_map_of)
  ultimately have "getitem prices m = Inl e"
    using pr by (simp add: and_then_def getitem_def split: sum.splits)
  then have "map_of prices m = None \<and> e = KeyError (Name m)"
    by (simp add: getitem_def split: option.splits)
  with i mm prices show ?thesis by blast
qed

lemma zero_line_infeasible:
  assumes b: "build_model demand costs ceramic_composition = Inr b"
    and i: "i \<in> set (keys demand)"
    and c: "map_of ceramic_composition i = Some c"
    and zero: "\<forall>m\<in>set (keys c). map_of c m = Some 0"
    and s1: "''supplier 1'' \<in> set (keys costs)"
  shows "\<not> feasible (prob b) a"
proof
  assume f: "feasible (prob b) a"
  from b obtain x z r1 r2 r3 r4 r5 where x: "x_indices demand costs ceramic_composition = Inr x"
    and r1: "restriction1 x demand ceramic_composition = Inr r1"
    and r3: "restriction3 x costs ceramic_composition = Inr r3"
    and cs: "constraints (prob b) = r1 @ r2 @ r3 @ r4 @ r5"
    and vs: "variables (prob b) = map x_decl x @ map p_plus_decl (keys demand)
               @ map p_minus_decl (keys demand) @ map z_decl z"
    by (rule build_model_Inr)
  from c have ms: "materials ceramic_composition i = keys c" by (rule materials_Some)
  have "a (X i ''supplier 1'' m) = 0" if m: "m \<in> set (keys c)" for m
  proof (rule sum_nonneg_zero[where f = "\<lambda>s. a (X i s m)" and ss = "keys costs"])
    show "\<forall>s\<in>set (keys costs). 0 \<le> a (X i s m)"
    proof
      fix s assume "s \<in> set (keys costs)"
      from x_indices_member[OF x i this] m ms vs
      have "x_decl (i, s, m) \<in> set (variables (prob b))" by simp
      from feasible_domain[OF f this] show "0 \<le> a (X i s m)"
        by (simp add: in_domain_def x_decl_def)
    qed
  next
    from zero m have "map_of c m = Some 0" by blast
    from restriction3_member[OF r3 c this] cs
    have "\<lparr>lhs = lpSum (map of_var (map (\<lambda>s. X i s m) (keys costs))), sense = EQ, rhs = of_num 0\<rparr>
            \<in> set (constraints (prob b))"
      by simp
    from feasible_constraint[OF f this] show "(\<Sum>s\<leftarrow>keys costs. a (X i s m)) = 0"
      by (simp add: satisfies_def value_of_lpSum_gen value_of_of_num comp_def)
  next
    show "''supplier 1'' \<in> set (keys costs)" by (rule s1)
  qed
  then have "(\<Sum>m\<leftarrow>keys c. a (X i ''supplier 1'' m)) = 0"
    by (intro sum_list_all_zero) blast
  moreover
  from restriction1_eq[OF r1] i
  have "\<lparr>lhs = lpSum (map (\<lambda>m. of_var (X i ''supplier 1'' m)) (materials ceramic_composition i)),
          sense = GE, rhs = of_num 1\<rparr> \<in> set r1"
    by (simp add: image_iff) blast
  with cs ms
  have "\<lparr>lhs = lpSum (map (\<lambda>m. of_var (X i ''supplier 1'' m)) (keys c)), sense = GE, rhs = of_num 1\<rparr>
          \<in> set (constraints (prob b))"
    by simp
  from feasible_constraint[OF f this] have "1 \<le> (\<Sum>m\<leftarrow>keys c. a (X i ''supplier 1'' m))"
    by (simp add: satisfies_def value_of_lpSum_gen value_of_of_num)
  ultimately show False by simp
qed

subsection \<open>The two reports\<close>

lemma detail_entries_eq:
  assumes "\<And>s. s \<in> set ss \<Longrightarrow> (i, s, m) \<in> set x"
  shows "run_all (\<lambda>s. detail_entry x vals i m s) ss
         = (map (\<lambda>s. Purchase m s (vals (X i s m))) (filter (\<lambda>s. vals (X i s m) \<noteq> Some 0) ss), None)"
proof -
  have "run_all (\<lambda>s. detail_entry x vals i m s) ss
        = (concat (map (\<lambda>s. if vals (X i s m) \<noteq> Some 0 then [Purchase m s (vals (X i s m))] else []) ss), None)"
    by (rule run_all_ok) (simp add: detail_entry_def getitem_x_def assms)
  also have "concat (map (\<lambda>s. if vals (X i s m) \<noteq> Some 0 then [Purchase m s (vals (X i s m))] else []) ss)
        = map (\<lambda>s. Purchase m s (vals (X i s m))) (filter (\<lambda>s. vals (X i s m) \<noteq> Some 0) ss)"
    by (induction ss) simp_all
  finally show ?thesis .
qed

lemma detail_view_eq:
  assumes "\<And>i m s. i \<in> set (keys p) \<Longrightarrow> m \<in> set (materials p i) \<Longrightarrow> s \<in> set (keys c)
             \<Longrightarrow> (i, s, m) \<in> set x"
  shows "detail_view x vals c p = (detail_lines vals c p, None)"
  unfolding detail_view_def detail_lines_def
proof (rule run_all_ok)
  fix i assume i: "i \<in> set (keys p)"
  then obtain cc where cc: "map_of p i = Some cc" by (blast dest: keys_map_of)
  then have ms: "materials p i = keys cc" by (rule materials_Some)
  have "run_all (\<lambda>m. run_all (\<lambda>s. detail_entry x vals i m s) (keys c)) (keys cc)
        = (concat (map (\<lambda>m. map (\<lambda>s. Purchase m s (vals (X i s m)))
             (filter (\<lambda>s. vals (X i s m) \<noteq> Some 0) (keys c))) (keys cc)), None)"
    by (rule run_all_ok) (rule detail_entries_eq, rule assms[OF i], simp_all add: ms)
  with cc ms show "then_run ([Header i], None)
         (case getitem p i of
            Inl e \<Rightarrow> ([], Some e)
          | Inr cc \<Rightarrow>
              then_run
                (run_all (\<lambda>m. run_all (\<lambda>s. detail_entry x vals i m s) (keys c)) (keys cc))
                ([Blank], None))
       = (Header i # concat (map (\<lambda>m. map (\<lambda>s. Purchase m s (vals (X i s m)))
             (filter (\<lambda>s. vals (X i s m) \<noteq> Some 0) (keys c))) (materials p i)) @ [Blank], None)"
    by (simp add: getitem_def then_run_def)
qed

lemma found_supplier_cases_ball:
  "\<forall>s\<in>set ss. (i, s, m) \<in> set x \<and> vals (X i s m) \<noteq> None
     \<Longrightarrow> found_supplier x vals i m ss = Inl IndexError
         \<or> (\<exists>cell. found_supplier x vals i m ss = Inr cell)"
proof (induction ss)
  case Nil
  then show ?case by simp
next
  case (Cons a ss)
  then obtain r where r: "vals (X i a m) = Some r" and mem: "(i, a, m) \<in> set x"
    by auto
  from Cons have "found_supplier x vals i m ss = Inl IndexError
         \<or> (\<exists>cell. found_supplier x vals i m ss = Inr cell)"
    by simp
  with r mem show ?case by (simp add: getitem_x_def)
qed

lemma found_supplier_cases:
  assumes "\<And>s. s \<in> set ss \<Longrightarrow> (i, s, m) \<in> set x \<and> vals (X i s m) \<noteq> None"
  shows "found_supplier x vals i m ss = Inl IndexError \<or> (\<exists>cell. found_supplier x vals i m ss = Inr cell)"
  by (rule found_supplier_cases_ball) (use assms in blast)

lemma found_supplier_ok_ball:
  "\<forall>s\<in>set ss. (i, s, m) \<in> set x \<and> vals (X i s m) \<noteq> None \<and> s \<noteq> []
     \<Longrightarrow> \<exists>cell. found_supplier x vals i m ss = Inr cell"
proof (induction ss)
  case Nil
  then show ?case by simp
next
  case (Cons a ss)
  then obtain r where r: "vals (X i a m) = Some r" and mem: "(i, a, m) \<in> set x" and a: "a \<noteq> []"
    by auto
  from Cons have "\<exists>cell. found_supplier x vals i m ss = Inr cell"
    by simp
  with r mem a show ?case by (simp add: getitem_x_def)
qed

lemma found_supplier_ok:
  assumes "\<And>s. s \<in> set ss \<Longrightarrow> (i, s, m) \<in> set x \<and> vals (X i s m) \<noteq> None"
    and "\<And>s. s \<in> set ss \<Longrightarrow> s \<noteq> []"
  shows "\<exists>cell. found_supplier x vals i m ss = Inr cell"
  by (rule found_supplier_ok_ball) (use assms in blast)

lemma format_row_short: "length cells < 4 \<Longrightarrow> format_row (i # cells) = Inl IndexError"
  by (simp add: format_row_def)

lemma format_row_take: "format_row (i # take 4 cells) = format_row (i # cells)"
proof (cases "length cells < 4")
  case True
  then show ?thesis by simp
next
  case False
  then have "take 4 cells ! 0 = cells ! 0" "take 4 cells ! 1 = cells ! 1"
    "take 4 cells ! 2 = cells ! 2" "take 4 cells ! 3 = cells ! 3"
    by simp_all
  with False show ?thesis
    by (simp add: format_row_def nth_Cons' min_def)
qed

lemma format_row_cases: "format_row r = Inl IndexError \<or> (\<exists>row. format_row r = Inr row)"
  by (simp add: format_row_def)

lemma format_row_long: "4 \<le> length cells \<Longrightarrow> \<exists>row. format_row (i # cells) = Inr row"
  by (simp add: format_row_def)

lemma table_row_cases:
  assumes "i \<in> set (keys p)"
    and "\<And>m s. m \<in> set (materials p i) \<Longrightarrow> s \<in> set (keys c)
           \<Longrightarrow> (i, s, m) \<in> set x \<and> vals (X i s m) \<noteq> None"
  shows "table_row x vals p c i = Inl IndexError \<or> (\<exists>row. table_row x vals p c i = Inr row)"
    and "length (materials p i) < 4 \<Longrightarrow> table_row x vals p c i = Inl IndexError"
proof -
  from assms(1) obtain cc where cc: "map_of p i = Some cc" by (blast dest: keys_map_of)
  then have ms: "materials p i = keys cc" by (rule materials_Some)
  have cells: "for_each (\<lambda>m. found_supplier x vals i m (keys c)) (keys cc) = Inl IndexError
     \<or> (\<exists>cells. for_each (\<lambda>m. found_supplier x vals i m (keys c)) (keys cc) = Inr cells)"
    by (rule for_each_one_error) (rule found_supplier_cases, rule assms(2), simp_all add: ms)
  have row: "table_row x vals p c i
     = and_then (for_each (\<lambda>m. found_supplier x vals i m (keys c)) (keys cc))
         (\<lambda>cells. format_row (i # cells))"
    using cc by (simp add: table_row_def getitem_def and_then_def)
  from cells show "table_row x vals p c i = Inl IndexError \<or> (\<exists>row. table_row x vals p c i = Inr row)"
  proof
    assume "for_each (\<lambda>m. found_supplier x vals i m (keys c)) (keys cc) = Inl IndexError"
    then show ?thesis unfolding row by (simp add: and_then_def)
  next
    assume "\<exists>cells. for_each (\<lambda>m. found_supplier x vals i m (keys c)) (keys cc) = Inr cells"
    then obtain cells where
      "for_each (\<lambda>m. found_supplier x vals i m (keys c)) (keys cc) = Inr cells"
      by blast
    with format_row_cases[of "i # cells"] show ?thesis
      unfolding row by (simp add: and_then_def)
  qed
  assume "length (materials p i) < 4"
  with ms have short: "length (keys cc) < 4" by simp
  from cells show "table_row x vals p c i = Inl IndexError"
  proof
    assume "for_each (\<lambda>m. found_supplier x vals i m (keys c)) (keys cc) = Inl IndexError"
    then show ?thesis unfolding row by (simp add: and_then_def)
  next
    assume "\<exists>cells. for_each (\<lambda>m. found_supplier x vals i m (keys c)) (keys cc) = Inr cells"
    then obtain cells where
      cs: "for_each (\<lambda>m. found_supplier x vals i m (keys c)) (keys cc) = Inr cells"
      by blast
    from for_each_length[OF cs] short have "length cells < 4" by simp
    from format_row_short[OF this] cs show ?thesis
      unfolding row by (simp add: and_then_def)
  qed
qed

lemma table_row_ok:
  assumes "i \<in> set (keys p)"
    and "\<And>m s. m \<in> set (materials p i) \<Longrightarrow> s \<in> set (keys c)
           \<Longrightarrow> (i, s, m) \<in> set x \<and> vals (X i s m) \<noteq> None"
    and "\<And>s. s \<in> set (keys c) \<Longrightarrow> s \<noteq> []"
  shows "table_row x vals (first_four p) c i = table_row x vals p c i"
    and "4 \<le> length (materials p i) \<Longrightarrow> \<exists>row. table_row x vals p c i = Inr row"
proof -
  from assms(1) obtain cc where cc: "map_of p i = Some cc" by (blast dest: keys_map_of)
  then have ms: "materials p i = keys cc" by (rule materials_Some)
  have "\<exists>cells. for_each (\<lambda>m. found_supplier x vals i m (keys c)) (keys cc) = Inr cells"
    by (rule for_each_total) (rule found_supplier_ok, rule assms(2), simp_all add: ms assms(3))
  then obtain cells where cells: "for_each (\<lambda>m. found_supplier x vals i m (keys c)) (keys cc) = Inr cells"
    by blast
  have row: "table_row x vals p c i = format_row (i # cells)"
    using cc cells by (simp add: table_row_def getitem_def and_then_def)
  have "table_row x vals (first_four p) c i = format_row (i # take 4 cells)"
    using cc for_each_take[OF cells, of 4]
    by (simp add: table_row_def getitem_def and_then_def map_of_first_four keys_take)
  with row show "table_row x vals (first_four p) c i = table_row x vals p c i"
    by (simp add: format_row_take)
  assume "4 \<le> length (materials p i)"
  with ms for_each_length[OF cells] row show "\<exists>row. table_row x vals p c i = Inr row"
    by (simp add: format_row_long)
qed

lemma ljust_pad: "ljust n s = pad n s"
  by (simp add: ljust_def pad_def)

lemma header_divider: "header @ divider = table_header"
  by (simp add: header_def divider_def table_header_def ljust_def newline_def eval_nat_numeral)

lemma found_supplier_label:
  "\<forall>s\<in>set ss. (i, s, m) \<in> set x \<and> vals (X i s m) \<noteq> None \<and> s \<noteq> []
     \<Longrightarrow> found_supplier x vals i m ss
         = Inr (case find (\<lambda>s. case vals (X i s m) of None \<Rightarrow> False | Some r \<Rightarrow> 0 < r) ss of
                  None \<Rightarrow> ''0''
                | Some s \<Rightarrow> ''supplier '' @ [last s])"
proof (induction ss)
  case Nil
  then show ?case by simp
next
  case (Cons a ss)
  then obtain r where r: "vals (X i a m) = Some r" and mem: "(i, a, m) \<in> set x" and a: "a \<noteq> []"
    by auto
  from Cons have "found_supplier x vals i m ss
         = Inr (case find (\<lambda>s. case vals (X i s m) of None \<Rightarrow> False | Some r \<Rightarrow> 0 < r) ss of
                  None \<Rightarrow> ''0''
                | Some s \<Rightarrow> ''supplier '' @ [last s])"
    by simp
  with r mem a show ?case by (simp add: getitem_x_def)
qed

lemma format_row_line:
  assumes "4 \<le> length cells"
  shows "format_row (i # cells) = Inr (table_line i cells)"
proof -
  from assms obtain c1 c2 c3 c4 further where "cells = c1 # c2 # c3 # c4 # further"
    by (cases cells; cases "tl cells"; cases "tl (tl cells)"; cases "tl (tl (tl cells))") auto
  then show ?thesis
    by (simp add: format_row_def table_line_def ljust_pad newline_def)
qed

lemma table_row_text:
  assumes "i \<in> set (keys p)"
    and "\<forall>m\<in>set (materials p i). \<forall>s\<in>set (keys c). (i, s, m) \<in> set x \<and> vals (X i s m) \<noteq> None"
    and "\<forall>s\<in>set (keys c). s \<noteq> []"
    and "4 \<le> length (materials p i)"
  shows "table_row x vals p c i = Inr (table_line i (map (chosen_label vals c i) (materials p i)))"
proof -
  from assms(1) obtain cc where cc: "map_of p i = Some cc" by (blast dest: keys_map_of)
  then have ms: "materials p i = keys cc" by (rule materials_Some)
  have "for_each (\<lambda>m. found_supplier x vals i m (keys c)) (keys cc)
        = Inr (map (chosen_label vals c i) (keys cc))"
  proof (rule for_each_map, rule ballI)
    fix m assume "m \<in> set (keys cc)"
    with assms(2,3) ms
    have "\<forall>s\<in>set (keys c). (i, s, m) \<in> set x \<and> vals (X i s m) \<noteq> None \<and> s \<noteq> []"
      by simp
    from found_supplier_label[OF this]
    show "found_supplier x vals i m (keys c) = Inr (chosen_label vals c i m)"
      by (simp add: chosen_label_def)
  qed
  with cc ms assms(4) show ?thesis
    by (simp add: table_row_def getitem_def and_then_def format_row_line)
qed

lemma script_built:
  assumes "build_model demand costs ceramic_composition = Inr b"
  shows "script solver demand costs ceramic_composition
           = (case solver (prob b) of
                Inl e \<Rightarrow> ([], Some e)
              | Inr sol \<Rightarrow>
                  (detail_lines (varValue sol) costs ceramic_composition
                   @ Total_Cost (objective_value (varValue sol) (objective (prob b)))
                   # (case generate_formatted_table_with_suppliers (x_dict b)
                             (varValue sol) ceramic_composition costs of
                        Inl e \<Rightarrow> [] | Inr t \<Rightarrow> [Table t]),
                   case generate_formatted_table_with_suppliers (x_dict b)
                             (varValue sol) ceramic_composition costs of
                     Inl e \<Rightarrow> Some e | Inr t \<Rightarrow> None))"
proof -
  from assms obtain x r3 where r3: "restriction3 x costs ceramic_composition = Inr r3"
    and x: "x_dict b = x"
    by (rule build_model_Inr)
  have "detail_view (x_dict b) vals costs ceramic_composition
          = (detail_lines vals costs ceramic_composition, None)" for vals
    unfolding x by (rule detail_view_eq) (rule restriction3_indices[OF r3])
  with assms show ?thesis
    by (simp add: script_def report_def then_run_def split: sum.splits)
qed

lemma script_status:
  "script (\<lambda>mdl. map_sum id (\<lambda>r. r\<lparr>status := st\<rparr>) (solver mdl)) demand costs ceramic_composition
     = script solver demand costs ceramic_composition"
  by (simp add: script_def report_def split: sum.splits)

subsection \<open>The sample\<close>

lemmas build_defs = build_model_def x_indices_def z_indices_def objective_expr_def purchase_terms_def
     restriction1_def restriction2_def restriction3_def restriction4_def restriction5_def
     for_each_concat_def and_then_def getitem_def getitem_x_def getitem_z_def keys_def

lemma sample_built:
  "\<exists>b. build_model sample_demand sample_costs sample_composition = Inr b
       \<and> feasible (prob b) sample_assignment"
  by (simp add: build_defs
     sample_demand_def sample_costs_def sample_composition_def sample_assignment_def
     feasible_def in_domain_def satisfies_def value_of_def lpSum_def add_def of_var_def
     of_num_def scale_def sub_def x_decl_def z_decl_def p_plus_decl_def p_minus_decl_def)

lemma sample_line:
  "map_of sample_composition ''A1'' = Some [(''white'', 58), (''yellow'', 38), (''pink'', 0), (''gray'', 4)]"
  by (simp add: sample_composition_def)

lemma zero_built:
  "\<exists>b. build_model sample_demand sample_costs zero_composition = Inr b"
  by (simp add: build_defs sample_demand_def sample_costs_def zero_composition_def
      lpSum_def add_def of_var_def of_num_def scale_def sub_def)

section \<open>The claims\<close>

subsection \<open>C1\<close>

text \<open>
  C1. For every line of the composition table and every material of its composition, a
  model that was built contains the constraint that the purchase variables of the pair,
  summed over all suppliers, equal the required quantity, with nothing else on either
  side; so every feasible assignment, and with it every optimal one, buys exactly the
  required quantity.
\<close>

theorem requirement_equality:
  assumes "build_model demand costs ceramic_composition = Inr b"
    and "map_of ceramic_composition i = Some c"
    and "map_of c m = Some q"
  shows "\<lparr>lhs = lpSum (map (\<lambda>s. of_var (X i s m)) (keys costs)), sense = EQ, rhs = of_num q\<rparr>
           \<in> set (constraints (prob b))
         \<and> (feasible (prob b) a \<longrightarrow> (\<Sum>s\<leftarrow>keys costs. a (X i s m)) = q)"
proof -
  from assms(1) obtain x r1 r2 r3 r4 r5 where r3: "restriction3 x costs ceramic_composition = Inr r3"
    and cs: "constraints (prob b) = r1 @ r2 @ r3 @ r4 @ r5"
    by (rule build_model_Inr)
  let ?c = "\<lparr>lhs = lpSum (map (\<lambda>s. of_var (X i s m)) (keys costs)), sense = EQ, rhs = of_num q\<rparr>"
  have mem: "?c \<in> set (constraints (prob b))"
    using restriction3_member[OF r3 assms(2,3)] cs by (simp add: comp_def)
  have "(\<Sum>s\<leftarrow>keys costs. a (X i s m)) = q" if "feasible (prob b) a"
  proof -
    from feasible_constraint[OF that mem] show ?thesis
      by (simp add: satisfies_def value_of_lpSum_gen value_of_of_num comp_def)
  qed
  with mem show ?thesis by blast
qed

theorem requirement_equality_witness:
  "\<exists>b. build_model sample_demand sample_costs sample_composition = Inr b
       \<and> \<lparr>lhs = lpSum (map (\<lambda>s. of_var (X ''A1'' s ''white'')) (keys sample_costs)),
           sense = EQ, rhs = of_num 58\<rparr> \<in> set (constraints (prob b))
       \<and> feasible (prob b) sample_assignment
       \<and> (\<Sum>s\<leftarrow>keys sample_costs. sample_assignment (X ''A1'' s ''white'')) = 58"
proof -
  obtain b where b: "build_model sample_demand sample_costs sample_composition = Inr b"
    and f: "feasible (prob b) sample_assignment"
    using sample_built by blast
  have q: "map_of [(''white'', 58), (''yellow'', 38), (''pink'', 0), (''gray'', 4)] ''white'' = Some (58::rat)"
    by simp
  from requirement_equality[OF b sample_line q, of sample_assignment] b f show ?thesis
    by blast
qed

subsection \<open>C2\<close>

text \<open>
  C2. For every product line (a key of the demand table) and every material of its
  composition, a model that was built contains the constraint that the indicators of
  the pair, summed over all suppliers, equal 1, and every indicator is declared binary;
  so in every feasible assignment exactly one supplier has indicator 1 for the pair.
\<close>

theorem one_chosen_supplier:
  assumes "build_model demand costs ceramic_composition = Inr b"
    and "i \<in> set (keys demand)"
    and "m \<in> set (materials ceramic_composition i)"
  shows "\<lparr>lhs = lpSum (map (\<lambda>s. of_var (Z i m s)) (keys costs)), sense = EQ, rhs = of_num 1\<rparr>
           \<in> set (constraints (prob b))
         \<and> list_all (\<lambda>s. z_decl (i, m, s) \<in> set (variables (prob b))) (keys costs)
         \<and> (feasible (prob b) a \<longrightarrow> (\<exists>!s. s \<in> set (keys costs) \<and> a (Z i m s) = 1))"
proof -
  from assms(1) obtain x z r1 r2 r3 r4 r5 where z: "z_indices demand costs ceramic_composition = Inr z"
    and r5: "restriction5 x z demand costs ceramic_composition = Inr r5"
    and cs: "constraints (prob b) = r1 @ r2 @ r3 @ r4 @ r5"
    and vs: "variables (prob b) = map x_decl x @ map p_plus_decl (keys demand)
               @ map p_minus_decl (keys demand) @ map z_decl z"
    by (rule build_model_Inr)
  from assms(3) obtain c q where c: "map_of ceramic_composition i = Some c" "map_of c m = Some q"
    by (blast dest: materials_member)
  let ?c = "\<lparr>lhs = lpSum (map (\<lambda>s. of_var (Z i m s)) (keys costs)), sense = EQ, rhs = of_num 1\<rparr>"
  have mem: "?c \<in> set (constraints (prob b))"
    using restriction5_member(1)[OF r5 assms(2) c] cs by simp
  have decl: "z_decl (i, m, s) \<in> set (variables (prob b))" if "s \<in> set (keys costs)" for s
    using z_indices_member[OF z assms(2) that assms(3)] vs by simp
  have "\<exists>!s. s \<in> set (keys costs) \<and> a (Z i m s) = 1" if f: "feasible (prob b) a"
  proof (rule sum_binary_one)
    fix s assume "s \<in> set (keys costs)"
    from feasible_domain[OF f decl[OF this]] show "a (Z i m s) = 0 \<or> a (Z i m s) = 1"
      by (simp add: in_domain_def z_decl_def)
  next
    from feasible_constraint[OF f mem] show "(\<Sum>s\<leftarrow>keys costs. a (Z i m s)) = 1"
      by (simp add: satisfies_def value_of_lpSum_gen value_of_of_num)
  qed
  with mem decl show ?thesis by (simp add: list_all_iff)
qed

theorem one_chosen_supplier_witness:
  "\<exists>b. build_model sample_demand sample_costs sample_composition = Inr b
       \<and> ''A1'' \<in> set (keys sample_demand)
       \<and> ''pink'' \<in> set (materials sample_composition ''A1'')
       \<and> \<lparr>lhs = lpSum (map (\<lambda>s. of_var (Z ''A1'' ''pink'' s)) (keys sample_costs)),
           sense = EQ, rhs = of_num 1\<rparr> \<in> set (constraints (prob b))
       \<and> feasible (prob b) sample_assignment
       \<and> (\<exists>!s. s \<in> set (keys sample_costs) \<and> sample_assignment (Z ''A1'' ''pink'' s) = 1)"
proof -
  obtain b where b: "build_model sample_demand sample_costs sample_composition = Inr b"
    and f: "feasible (prob b) sample_assignment"
    using sample_built by blast
  have i: "''A1'' \<in> set (keys sample_demand)"
    by (simp add: keys_def sample_demand_def)
  have m: "''pink'' \<in> set (materials sample_composition ''A1'')"
    by (simp add: materials_def sample_line keys_def)
  from one_chosen_supplier[OF b i m, of sample_assignment] b f i m show ?thesis
    by blast
qed

subsection \<open>C3\<close>

text \<open>
  C3. For every product line, every material of its composition with required quantity
  \<open>q\<close> and every supplier, a model that was built contains the constraint
  \<open>x[i, s, m] \<le> z[i, m, s] * q\<close>; so in every feasible assignment a supplier that is
  not chosen sells nothing of the material, and the chosen one sells between 0 and \<open>q\<close>:
  the cap is the required quantity itself.
\<close>

theorem purchase_linked_to_indicator:
  assumes "build_model demand costs ceramic_composition = Inr b"
    and "i \<in> set (keys demand)"
    and "map_of ceramic_composition i = Some c"
    and "map_of c m = Some q"
    and "s \<in> set (keys costs)"
  shows "\<lparr>lhs = of_var (X i s m), sense = LE, rhs = scale q (of_var (Z i m s))\<rparr>
           \<in> set (constraints (prob b))
         \<and> (feasible (prob b) a \<longrightarrow>
              a (X i s m) \<le> q * a (Z i m s)
              \<and> (a (Z i m s) \<noteq> 1 \<longrightarrow> a (X i s m) = 0)
              \<and> (a (Z i m s) = 1 \<longrightarrow> 0 \<le> a (X i s m) \<and> a (X i s m) \<le> q))"
proof -
  from assms(1) obtain x z r1 r2 r3 r4 r5 where x: "x_indices demand costs ceramic_composition = Inr x"
    and z: "z_indices demand costs ceramic_composition = Inr z"
    and r5: "restriction5 x z demand costs ceramic_composition = Inr r5"
    and cs: "constraints (prob b) = r1 @ r2 @ r3 @ r4 @ r5"
    and vs: "variables (prob b) = map x_decl x @ map p_plus_decl (keys demand)
               @ map p_minus_decl (keys demand) @ map z_decl z"
    by (rule build_model_Inr)
  from assms(3,4) have m: "m \<in> set (materials ceramic_composition i)"
    by (simp add: materials_Some map_of_keys)
  let ?c = "\<lparr>lhs = of_var (X i s m), sense = LE, rhs = scale q (of_var (Z i m s))\<rparr>"
  have mem: "?c \<in> set (constraints (prob b))"
    using restriction5_member(2)[OF r5 assms(2,3,4,5)] cs by simp
  have xd: "x_decl (i, s, m) \<in> set (variables (prob b))"
    using x_indices_member[OF x assms(2,5) m] vs by simp
  have zd: "z_decl (i, m, s) \<in> set (variables (prob b))"
    using z_indices_member[OF z assms(2,5) m] vs by simp
  have "a (X i s m) \<le> q * a (Z i m s)
        \<and> (a (Z i m s) \<noteq> 1 \<longrightarrow> a (X i s m) = 0)
        \<and> (a (Z i m s) = 1 \<longrightarrow> 0 \<le> a (X i s m) \<and> a (X i s m) \<le> q)" if f: "feasible (prob b) a"
  proof -
    from feasible_constraint[OF f mem] have le: "a (X i s m) \<le> q * a (Z i m s)"
      by (simp add: satisfies_def value_of_of_var value_of_scale)
    from feasible_domain[OF f xd] have nonneg: "0 \<le> a (X i s m)"
      by (simp add: in_domain_def x_decl_def)
    from feasible_domain[OF f zd] have "a (Z i m s) = 0 \<or> a (Z i m s) = 1"
      by (simp add: in_domain_def z_decl_def)
    with le nonneg show ?thesis by auto
  qed
  with mem show ?thesis by blast
qed

theorem purchase_linked_to_indicator_witness:
  "\<exists>b. build_model sample_demand sample_costs sample_composition = Inr b
       \<and> ''A1'' \<in> set (keys sample_demand)
       \<and> ''supplier 2'' \<in> set (keys sample_costs)
       \<and> \<lparr>lhs = of_var (X ''A1'' ''supplier 2'' ''gray''), sense = LE,
           rhs = scale 4 (of_var (Z ''A1'' ''gray'' ''supplier 2''))\<rparr> \<in> set (constraints (prob b))
       \<and> feasible (prob b) sample_assignment
       \<and> sample_assignment (Z ''A1'' ''gray'' ''supplier 2'') = 1
       \<and> 0 \<le> sample_assignment (X ''A1'' ''supplier 2'' ''gray'')
       \<and> sample_assignment (X ''A1'' ''supplier 2'' ''gray'') \<le> 4"
proof -
  obtain b where b: "build_model sample_demand sample_costs sample_composition = Inr b"
    and f: "feasible (prob b) sample_assignment"
    using sample_built by blast
  have i: "''A1'' \<in> set (keys sample_demand)"
    by (simp add: keys_def sample_demand_def)
  have s: "''supplier 2'' \<in> set (keys sample_costs)"
    by (simp add: keys_def sample_costs_def)
  have q: "map_of [(''white'', 58), (''yellow'', 38), (''pink'', 0), (''gray'', 4)] ''gray'' = Some (4::rat)"
    by simp
  have z: "sample_assignment (Z ''A1'' ''gray'' ''supplier 2'') = 1"
    by (simp add: sample_assignment_def)
  from purchase_linked_to_indicator[OF b i sample_line q s, of sample_assignment] b f i s z
  show ?thesis by blast
qed

subsection \<open>C4\<close>

theorem floor_over_indicators_counterexample:
  "x_indices sample_demand sample_costs sample_composition = Inr sample_x
   \<and> restriction1 sample_x sample_demand sample_composition
       = Inr [\<lparr>lhs = lpSum [of_var (X ''A1'' ''supplier 1'' ''white''),
                            of_var (X ''A1'' ''supplier 1'' ''yellow''),
                            of_var (X ''A1'' ''supplier 1'' ''pink''),
                            of_var (X ''A1'' ''supplier 1'' ''gray'')],
               sense = GE, rhs = of_num 1\<rparr>]
   \<and> \<not> over_indicators
         \<lparr>lhs = lpSum [of_var (X ''A1'' ''supplier 1'' ''white''),
                       of_var (X ''A1'' ''supplier 1'' ''yellow''),
                       of_var (X ''A1'' ''supplier 1'' ''pink''),
                       of_var (X ''A1'' ''supplier 1'' ''gray'')],
          sense = GE, rhs = of_num 1\<rparr>"
  by (simp add: build_defs sample_demand_def sample_costs_def sample_composition_def sample_x_def
      over_indicators_def constraint_vars_def is_indicator_def lpSum_def add_def of_var_def of_num_def)

text \<open>
  C4, as the script has it. Of the two sourcing-diversity constraints of a product
  line, only the ceiling is expressed over the binary indicators: at most two materials
  have indicator 1 for \<^verbatim>\<open>"supplier 3"\<close>. The floor is expressed over the continuous
  purchase variables: the quantity bought from \<^verbatim>\<open>"supplier 1"\<close>, summed over the
  materials of the line, is at least 1.
\<close>

theorem diversity_constraints:
  assumes "build_model demand costs ceramic_composition = Inr b"
    and "i \<in> set (keys demand)"
  shows "\<lparr>lhs = lpSum (map (\<lambda>m. of_var (X i ''supplier 1'' m)) (materials ceramic_composition i)),
          sense = GE, rhs = of_num 1\<rparr> \<in> set (constraints (prob b))
       \<and> over_purchases
           \<lparr>lhs = lpSum (map (\<lambda>m. of_var (X i ''supplier 1'' m)) (materials ceramic_composition i)),
            sense = GE, rhs = of_num 1\<rparr>
       \<and> \<lparr>lhs = lpSum (map (\<lambda>m. of_var (Z i m ''supplier 3'')) (materials ceramic_composition i)),
          sense = LE, rhs = of_num 2\<rparr> \<in> set (constraints (prob b))
       \<and> over_indicators
           \<lparr>lhs = lpSum (map (\<lambda>m. of_var (Z i m ''supplier 3'')) (materials ceramic_composition i)),
            sense = LE, rhs = of_num 2\<rparr>
       \<and> (feasible (prob b) a \<longrightarrow>
            1 \<le> (\<Sum>m\<leftarrow>materials ceramic_composition i. a (X i ''supplier 1'' m))
            \<and> (\<Sum>m\<leftarrow>materials ceramic_composition i. a (Z i m ''supplier 3'')) \<le> 2)"
proof -
  from assms(1) obtain x z r1 r2 r3 r4 r5 where
    r1: "restriction1 x demand ceramic_composition = Inr r1"
    and r2: "restriction2 z demand ceramic_composition = Inr r2"
    and cs: "constraints (prob b) = r1 @ r2 @ r3 @ r4 @ r5"
    by (rule build_model_Inr)
  let ?floor = "\<lparr>lhs = lpSum (map (\<lambda>m. of_var (X i ''supplier 1'' m)) (materials ceramic_composition i)),
          sense = GE, rhs = of_num 1\<rparr>"
  let ?ceiling = "\<lparr>lhs = lpSum (map (\<lambda>m. of_var (Z i m ''supplier 3'')) (materials ceramic_composition i)),
          sense = LE, rhs = of_num 2\<rparr>"
  have fl: "?floor \<in> set (constraints (prob b))"
    using restriction1_eq[OF r1] assms(2) cs by auto
  have ce: "?ceiling \<in> set (constraints (prob b))"
    using restriction2_eq[OF r2] assms(2) cs by auto
  have op: "over_purchases ?floor"
    by (simp add: over_purchases_def constraint_vars_def coeffs_lpSum_vars of_num_def
        list_all_iff is_purchase_def)
  have oi: "over_indicators ?ceiling"
    by (simp add: over_indicators_def constraint_vars_def coeffs_lpSum_vars of_num_def
        list_all_iff is_indicator_def)
  have "1 \<le> (\<Sum>m\<leftarrow>materials ceramic_composition i. a (X i ''supplier 1'' m))
            \<and> (\<Sum>m\<leftarrow>materials ceramic_composition i. a (Z i m ''supplier 3'')) \<le> 2"
    if f: "feasible (prob b) a"
    using feasible_constraint[OF f fl] feasible_constraint[OF f ce]
    by (simp add: satisfies_def value_of_lpSum_gen value_of_of_num)
  with fl ce op oi show ?thesis by blast
qed

theorem diversity_constraints_witness:
  "\<exists>b. build_model sample_demand sample_costs sample_composition = Inr b
       \<and> ''A1'' \<in> set (keys sample_demand)
       \<and> feasible (prob b) sample_assignment
       \<and> 1 \<le> (\<Sum>m\<leftarrow>materials sample_composition ''A1''. sample_assignment (X ''A1'' ''supplier 1'' m))
       \<and> (\<Sum>m\<leftarrow>materials sample_composition ''A1''. sample_assignment (Z ''A1'' m ''supplier 3'')) \<le> 2"
proof -
  obtain b where b: "build_model sample_demand sample_costs sample_composition = Inr b"
    and f: "feasible (prob b) sample_assignment"
    using sample_built by blast
  have i: "''A1'' \<in> set (keys sample_demand)"
    by (simp add: keys_def sample_demand_def)
  from diversity_constraints[OF b i, of sample_assignment] b f i show ?thesis
    by blast
qed

subsection \<open>C5\<close>

text \<open>
  C5. The problem is a minimisation, and the value of its objective under any
  assignment is the sum of \<open>x[i, s, m] * price[s][m]\<close> over all lines, suppliers and
  materials, plus \<open>w_plus\<close> times the sum of the \<open>p_plus\<close>, plus \<open>w_minus\<close> times the
  sum of the \<open>p_minus\<close>, with \<open>w_plus = 0.02\<close>, \<open>w_minus = 0.05\<close> and so
  \<open>w_plus < w_minus\<close>.
\<close>

theorem objective_is_cost_plus_penalties:
  assumes "build_model demand costs ceramic_composition = Inr b"
  shows "direction (prob b) = LpMinimize
       \<and> value_of a (objective (prob b)) = spec_objective a demand costs ceramic_composition
       \<and> w_plus = 2 / 100 \<and> w_minus = 5 / 100 \<and> w_plus < w_minus"
proof -
  from assms obtain x obj where obj: "objective_expr x demand costs ceramic_composition = Inr obj"
    and o: "objective (prob b) = obj" and dir: "direction (prob b) = LpMinimize"
    by (rule build_model_Inr)
  from obj obtain ts where ts: "purchase_terms x demand costs ceramic_composition = Inr ts"
    and "obj = add (add (lpSum ts)
                     (scale (2 / 100) (lpSum (map (\<lambda>i. of_var (P_plus i)) (keys demand)))))
                (scale (5 / 100) (lpSum (map (\<lambda>i. of_var (P_minus i)) (keys demand))))"
    unfolding objective_expr_def and_then_Inr by blast
  with o have "value_of a (objective (prob b))
      = (\<Sum>t\<leftarrow>ts. value_of a t) + 2 / 100 * (\<Sum>i\<leftarrow>keys demand. a (P_plus i))
        + 5 / 100 * (\<Sum>i\<leftarrow>keys demand. a (P_minus i))"
    by (simp add: value_of_add value_of_scale value_of_lpSum comp_def value_of_of_var)
  with purchase_terms_value[OF ts, of a] dir show ?thesis
    by (simp add: spec_objective_def w_plus_def w_minus_def)
qed

theorem objective_is_cost_plus_penalties_witness:
  "\<exists>b. build_model sample_demand sample_costs sample_composition = Inr b
       \<and> direction (prob b) = LpMinimize
       \<and> value_of sample_assignment (objective (prob b))
           = spec_objective sample_assignment sample_demand sample_costs sample_composition
       \<and> spec_objective sample_assignment sample_demand sample_costs sample_composition
           = 58 * 35 + 38 * 18 + 4 * 40 + 2 / 100 * 93"
proof -
  obtain b where b: "build_model sample_demand sample_costs sample_composition = Inr b"
    using sample_built by blast
  have "spec_objective sample_assignment sample_demand sample_costs sample_composition
           = 58 * 35 + 38 * 18 + 4 * 40 + 2 / 100 * 93"
    by (simp add: spec_objective_def sample_assignment_def sample_demand_def sample_costs_def
        sample_composition_def keys_def materials_def price_def w_plus_def w_minus_def)
  with objective_is_cost_plus_penalties[OF b, of sample_assignment] b show ?thesis
    by blast
qed

subsection \<open>C6\<close>

text \<open>
  C6. For every product line with demand \<open>d\<close>, a model that was built contains the
  constraint that the purchase variables of the line, summed over all suppliers and all
  materials of its composition, equal \<open>d + p_plus[i] - p_minus[i]\<close>; the two penalty
  variables are declared continuous with lower bound 0. So in every feasible assignment
  the quantity bought differs from the demand by the penalties, which are not negative.
\<close>

theorem demand_matching:
  assumes "build_model demand costs ceramic_composition = Inr b"
    and "map_of demand i = Some d"
  shows "\<lparr>lhs = lpSum (map of_var (concat (map (\<lambda>s. map (\<lambda>m. X i s m)
                    (materials ceramic_composition i)) (keys costs)))),
          sense = EQ,
          rhs = sub (add (of_num d) (of_var (P_plus i))) (of_var (P_minus i))\<rparr>
           \<in> set (constraints (prob b))
         \<and> p_plus_decl i \<in> set (variables (prob b))
         \<and> p_minus_decl i \<in> set (variables (prob b))
         \<and> (feasible (prob b) a \<longrightarrow>
              (\<Sum>s\<leftarrow>keys costs. \<Sum>m\<leftarrow>materials ceramic_composition i. a (X i s m))
                = d + a (P_plus i) - a (P_minus i)
              \<and> 0 \<le> a (P_plus i) \<and> 0 \<le> a (P_minus i))"
proof -
  from assms(1) obtain x z r1 r2 r3 r4 r5 where
    r4: "restriction4 x demand costs ceramic_composition = Inr r4"
    and cs: "constraints (prob b) = r1 @ r2 @ r3 @ r4 @ r5"
    and vs: "variables (prob b) = map x_decl x @ map p_plus_decl (keys demand)
               @ map p_minus_decl (keys demand) @ map z_decl z"
    by (rule build_model_Inr)
  let ?c = "\<lparr>lhs = lpSum (map of_var (concat (map (\<lambda>s. map (\<lambda>m. X i s m)
                    (materials ceramic_composition i)) (keys costs)))),
          sense = EQ,
          rhs = sub (add (of_num d) (of_var (P_plus i))) (of_var (P_minus i))\<rparr>"
  from assms(2) have i: "i \<in> set (keys demand)" by (rule map_of_keys)
  have mem: "?c \<in> set (constraints (prob b))"
    using restriction4_member[OF r4 assms(2)] cs by simp
  have pp: "p_plus_decl i \<in> set (variables (prob b))" using i vs by simp
  have pm: "p_minus_decl i \<in> set (variables (prob b))" using i vs by simp
  have "(\<Sum>s\<leftarrow>keys costs. \<Sum>m\<leftarrow>materials ceramic_composition i. a (X i s m))
                = d + a (P_plus i) - a (P_minus i)
              \<and> 0 \<le> a (P_plus i) \<and> 0 \<le> a (P_minus i)" if f: "feasible (prob b) a"
  proof -
    from feasible_constraint[OF f mem]
    have "(\<Sum>s\<leftarrow>keys costs. \<Sum>m\<leftarrow>materials ceramic_composition i. a (X i s m))
                = d + a (P_plus i) - a (P_minus i)"
      by (simp add: satisfies_def value_of_lpSum_vars value_of_sub value_of_add value_of_of_num
          value_of_of_var sum_list_map_concat comp_def)
    moreover from feasible_domain[OF f pp] have "0 \<le> a (P_plus i)"
      by (simp add: in_domain_def p_plus_decl_def)
    moreover from feasible_domain[OF f pm] have "0 \<le> a (P_minus i)"
      by (simp add: in_domain_def p_minus_decl_def)
    ultimately show ?thesis by blast
  qed
  with mem pp pm show ?thesis by blast
qed

theorem demand_matching_witness:
  "\<exists>b. build_model sample_demand sample_costs sample_composition = Inr b
       \<and> map_of sample_demand ''A1'' = Some 7
       \<and> feasible (prob b) sample_assignment
       \<and> (\<Sum>s\<leftarrow>keys sample_costs. \<Sum>m\<leftarrow>materials sample_composition ''A1''.
             sample_assignment (X ''A1'' s m))
           = 7 + sample_assignment (P_plus ''A1'') - sample_assignment (P_minus ''A1'')
       \<and> sample_assignment (P_plus ''A1'') = 93
       \<and> sample_assignment (P_minus ''A1'') = 0"
proof -
  obtain b where b: "build_model sample_demand sample_costs sample_composition = Inr b"
    and f: "feasible (prob b) sample_assignment"
    using sample_built by blast
  have d: "map_of sample_demand ''A1'' = Some 7"
    by (simp add: sample_demand_def)
  have p: "sample_assignment (P_plus ''A1'') = 93" "sample_assignment (P_minus ''A1'') = 0"
    by (simp_all add: sample_assignment_def)
  from demand_matching[OF b d, of sample_assignment] b f d p show ?thesis
    by blast
qed

subsection \<open>C7\<close>

theorem missing_price_error_counterexample:
  "build_model sample_demand costs_no_pink_2 sample_composition = Inl (KeyError (Name ''pink''))
   \<and> build_model sample_demand costs_no_pink_3 sample_composition = Inl (KeyError (Name ''pink''))
   \<and> costs_no_pink_2 \<noteq> costs_no_pink_3"
  by (simp add: build_defs sample_demand_def sample_composition_def
      costs_no_pink_2_def costs_no_pink_3_def)

text \<open>
  C7, as the script has it. When a material of the composition of a line has no price
  with some supplier, the construction of the model ends in Python's generic KeyError,
  and the script stops before the solver is called, with nothing printed. The script has
  no error of its own for a missing price. When the line is a line of the demand table
  and every line of the demand table has a composition, the key of the exception is the
  name of a material of a demand line that has no price with some supplier: the material
  alone, not the (supplier, material) pair.
\<close>

theorem missing_price_raises_KeyError:
  assumes "m \<in> set (materials ceramic_composition i)"
    and "map_of costs s = Some prices"
    and "map_of prices m = None"
  shows "(\<exists>k. build_model demand costs ceramic_composition = Inl (KeyError k)
            \<and> script solver demand costs ceramic_composition = ([], Some (KeyError k)))
       \<and> ((\<forall>j\<in>set (keys demand). map_of ceramic_composition j \<noteq> None) \<longrightarrow>
            i \<in> set (keys demand) \<longrightarrow>
            (\<exists>i' s' prices' m'. i' \<in> set (keys demand) \<and> m' \<in> set (materials ceramic_composition i')
               \<and> map_of costs s' = Some prices' \<and> map_of prices' m' = None
               \<and> build_model demand costs ceramic_composition = Inl (KeyError (Name m'))
               \<and> script solver demand costs ceramic_composition = ([], Some (KeyError (Name m')))))"
proof (intro conjI impI)
  show "\<exists>k. build_model demand costs ceramic_composition = Inl (KeyError k)
            \<and> script solver demand costs ceramic_composition = ([], Some (KeyError k))"
  proof (cases "build_model demand costs ceramic_composition")
    case (Inl e)
    then obtain k where "e = KeyError k" by (blast dest: build_model_Inl)
    with Inl show ?thesis by (simp add: script_def)
  next
    case (Inr b)
    then obtain x obj r3 where x: "x_indices demand costs ceramic_composition = Inr x"
      and obj: "objective_expr x demand costs ceramic_composition = Inr obj"
      and r3: "restriction3 x costs ceramic_composition = Inr r3"
      by (rule build_model_Inr)
    from obj obtain ts where ts: "purchase_terms x demand costs ceramic_composition = Inr ts"
      unfolding objective_expr_def and_then_Inr by blast
    from assms(1) have "i \<in> set (keys ceramic_composition)"
      by (blast dest: materials_cases map_of_keys)
    from restriction3_indices[OF r3 this assms(1) map_of_keys[OF assms(2)]]
    have "(i, s, m) \<in> set x" .
    then have "i \<in> set (keys demand)" by (rule x_indices_lines[OF x])
    from purchase_terms_price[OF ts this map_of_keys[OF assms(2)] assms(1,2)] assms(3)
    show ?thesis by simp
  qed
next
  assume lines: "\<forall>j\<in>set (keys demand). map_of ceramic_composition j \<noteq> None"
    and i: "i \<in> set (keys demand)"
  from x_indices_total[OF lines] obtain x where x: "x_indices demand costs ceramic_composition = Inr x"
    by blast
  from z_indices_total[OF lines] obtain z where z: "z_indices demand costs ceramic_composition = Inr z"
    by blast
  have "\<exists>e. purchase_terms x demand costs ceramic_composition = Inl e"
  proof (cases "purchase_terms x demand costs ceramic_composition")
    case (Inl e)
    then show ?thesis by blast
  next
    case (Inr ts)
    from purchase_terms_price[OF Inr i map_of_keys[OF assms(2)] assms(1,2)] assms(3)
    show ?thesis by simp
  qed
  then obtain e where e: "purchase_terms x demand costs ceramic_composition = Inl e"
    by blast
  from purchase_terms_Inl[OF e x] obtain i' s' prices' m' where
    found: "i' \<in> set (keys demand)" "m' \<in> set (materials ceramic_composition i')"
      "map_of costs s' = Some prices'" "map_of prices' m' = None"
    and k: "e = KeyError (Name m')"
    by blast
  from x z e k have "build_model demand costs ceramic_composition = Inl (KeyError (Name m'))"
    by (simp add: build_model_def objective_expr_def and_then_def)
  with found show "\<exists>i' s' prices' m'. i' \<in> set (keys demand) \<and> m' \<in> set (materials ceramic_composition i')
               \<and> map_of costs s' = Some prices' \<and> map_of prices' m' = None
               \<and> build_model demand costs ceramic_composition = Inl (KeyError (Name m'))
               \<and> script solver demand costs ceramic_composition = ([], Some (KeyError (Name m')))"
    by (auto simp: script_def)
qed

theorem missing_price_raises_KeyError_witness:
  "''pink'' \<in> set (materials sample_composition ''A1'')
   \<and> map_of costs_no_pink_2 ''supplier 2'' = Some [(''white'', 32), (''yellow'', 20), (''gray'', 40)]
   \<and> map_of [(''white'', 32), (''yellow'', 20), (''gray'', 40::rat)] ''pink'' = None
   \<and> list_all (\<lambda>j. map_of sample_composition j \<noteq> None) (keys sample_demand)
   \<and> ''A1'' \<in> set (keys sample_demand)
   \<and> (\<exists>k. build_model sample_demand costs_no_pink_2 sample_composition = Inl (KeyError k)
          \<and> script sample_solver sample_demand costs_no_pink_2 sample_composition
              = ([], Some (KeyError k)))
   \<and> (\<exists>i' s' prices' m'. i' \<in> set (keys sample_demand) \<and> m' \<in> set (materials sample_composition i')
          \<and> map_of costs_no_pink_2 s' = Some prices' \<and> map_of prices' m' = None
          \<and> build_model sample_demand costs_no_pink_2 sample_composition = Inl (KeyError (Name m'))
          \<and> script sample_solver sample_demand costs_no_pink_2 sample_composition
              = ([], Some (KeyError (Name m'))))"
proof -
  have m: "''pink'' \<in> set (materials sample_composition ''A1'')"
    by (simp add: materials_def sample_line keys_def)
  have s: "map_of costs_no_pink_2 ''supplier 2'' = Some [(''white'', 32), (''yellow'', 20), (''gray'', 40)]"
    by (simp add: costs_no_pink_2_def)
  have p: "map_of [(''white'', 32), (''yellow'', 20), (''gray'', 40::rat)] ''pink'' = None"
    by simp
  have l: "list_all (\<lambda>j. map_of sample_composition j \<noteq> None) (keys sample_demand)"
    by (simp add: keys_def sample_demand_def sample_composition_def)
  then have l': "\<forall>j\<in>set (keys sample_demand). map_of sample_composition j \<noteq> None"
    by (simp add: list_all_iff)
  have i: "''A1'' \<in> set (keys sample_demand)"
    by (simp add: keys_def sample_demand_def)
  from missing_price_raises_KeyError[OF m s p, where solver = sample_solver
      and demand = sample_demand] l' i m s p l
  show ?thesis by blast
qed

subsection \<open>C8\<close>

theorem zero_tolerance_counterexample:
  "detail_entry sample_x spurious_values ''A1'' ''white'' ''supplier 2''
     = ([Purchase ''white'' ''supplier 2'' (Some (1 / 1000000000))], None)
   \<and> \<not> (\<exists>eps>0. \<forall>v. \<bar>v\<bar> < eps \<longrightarrow>
           fst (detail_entry sample_x (\<lambda>u. Some v) ''A1'' ''white'' ''supplier 2'') = [])"
proof
  show "detail_entry sample_x spurious_values ''A1'' ''white'' ''supplier 2''
     = ([Purchase ''white'' ''supplier 2'' (Some (1 / 1000000000))], None)"
    by (simp add: detail_entry_def getitem_x_def sample_x_def spurious_values_def)
  show "\<not> (\<exists>eps>0. \<forall>v. \<bar>v\<bar> < eps \<longrightarrow>
           fst (detail_entry sample_x (\<lambda>u. Some v) ''A1'' ''white'' ''supplier 2'') = [])"
  proof
    assume "\<exists>eps>0. \<forall>v. \<bar>v\<bar> < eps \<longrightarrow>
           fst (detail_entry sample_x (\<lambda>u. Some v) ''A1'' ''white'' ''supplier 2'') = []"
    then obtain eps :: rat where pos: "0 < eps"
      and all: "\<And>v. \<bar>v\<bar> < eps \<Longrightarrow>
           fst (detail_entry sample_x (\<lambda>u. Some v) ''A1'' ''white'' ''supplier 2'') = []"
      by blast
    from pos have "\<bar>eps / 2\<bar> < eps" by simp
    from all[OF this] pos show False
      by (simp add: detail_entry_def getitem_x_def sample_x_def)
  qed
qed

text \<open>
  C8, as the script has it. The detail view compares every value with exact 0; there
  is no tolerance. When \<^verbatim>\<open>x\<close> has a variable for every line, material and supplier of
  the tables, the view prints, for every line, its header, a purchase line for every
  material and every supplier whose value is not exactly 0, and a blank line: several
  suppliers of the same line and material are all printed, none is dropped.
\<close>

theorem detail_view_reports_every_nonzero:
  assumes "\<forall>i\<in>set (keys ceramic_composition). \<forall>m\<in>set (materials ceramic_composition i).
             \<forall>s\<in>set (keys costs). (i, s, m) \<in> set x"
  shows "detail_view x vals costs ceramic_composition = (detail_lines vals costs ceramic_composition, None)"
  by (rule detail_view_eq) (use assms in blast)

theorem detail_view_reports_every_nonzero_witness:
  "list_all (\<lambda>i. list_all (\<lambda>m. list_all (\<lambda>s. (i, s, m) \<in> set sample_x) (keys sample_costs))
      (materials sample_composition i)) (keys sample_composition)
   \<and> detail_view sample_x spurious_values sample_costs sample_composition
       = (detail_lines spurious_values sample_costs sample_composition, None)
   \<and> detail_lines spurious_values sample_costs sample_composition
       = [Header ''A1'',
          Purchase ''white'' ''supplier 1'' (Some 58),
          Purchase ''white'' ''supplier 2'' (Some (1 / 1000000000)),
          Blank]"
proof -
  have h: "list_all (\<lambda>i. list_all (\<lambda>m. list_all (\<lambda>s. (i, s, m) \<in> set sample_x) (keys sample_costs))
      (materials sample_composition i)) (keys sample_composition)"
    by (simp add: keys_def materials_def sample_costs_def sample_composition_def sample_x_def)
  then have "\<forall>i\<in>set (keys sample_composition). \<forall>m\<in>set (materials sample_composition i).
             \<forall>s\<in>set (keys sample_costs). (i, s, m) \<in> set sample_x"
    by (simp add: list_all_iff)
  from detail_view_reports_every_nonzero[OF this, of spurious_values]
  have "detail_view sample_x spurious_values sample_costs sample_composition
       = (detail_lines spurious_values sample_costs sample_composition, None)" .
  moreover have "detail_lines spurious_values sample_costs sample_composition
       = [Header ''A1'',
          Purchase ''white'' ''supplier 1'' (Some 58),
          Purchase ''white'' ''supplier 2'' (Some (1 / 1000000000)),
          Blank]"
    by (simp add: detail_lines_def keys_def materials_def sample_costs_def sample_composition_def
        spurious_values_def)
  ultimately show ?thesis using h by blast
qed

subsection \<open>C9\<close>

theorem infeasible_still_reports_counterexample:
  "\<exists>b. build_model sample_demand sample_costs zero_composition = Inr b
       \<and> (\<forall>a. \<not> feasible (prob b) a)
       \<and> (\<forall>vals. \<exists>purchases table.
             fst (script (\<lambda>mdl. Inr \<lparr>status = Infeasible, varValue = vals\<rparr>)
                    sample_demand sample_costs zero_composition)
               = Header ''A1'' # purchases @ Blank
                 # Total_Cost (objective_value vals (objective (prob b))) # table)"
proof -
  from zero_built obtain b where b: "build_model sample_demand sample_costs zero_composition = Inr b"
    by blast
  have "\<not> feasible (prob b) a" for a
    by (rule zero_line_infeasible[OF b, where i = "''A1''"
          and c = "[(''white'', 0), (''yellow'', 0), (''pink'', 0), (''gray'', 0)]"])
       (auto simp: keys_def sample_demand_def sample_costs_def zero_composition_def)
  moreover have "\<exists>purchases table.
             fst (script (\<lambda>mdl. Inr \<lparr>status = Infeasible, varValue = vals\<rparr>)
                    sample_demand sample_costs zero_composition)
               = Header ''A1'' # purchases @ Blank
                 # Total_Cost (objective_value vals (objective (prob b))) # table" for vals
    unfolding script_built[OF b]
    by (simp add: detail_lines_def keys_def zero_composition_def) blast
  ultimately show ?thesis using b by blast
qed

text \<open>
  C9, as the script has it. The status of the solve is never read: the script does the
  same whatever status the solver returns. Once the model is built, an exception of the
  solve ends the script with nothing printed; when the solve returns, the script prints
  the detail view, then the total cost, then the summary table (or ends in the exception
  the table raises).
\<close>

theorem report_ignores_status:
  assumes "build_model demand costs ceramic_composition = Inr b"
  shows "script (\<lambda>mdl. map_sum id (\<lambda>r. r\<lparr>status := st\<rparr>) (solver mdl)) demand costs ceramic_composition
           = script solver demand costs ceramic_composition
       \<and> script solver demand costs ceramic_composition
           = (case solver (prob b) of
                Inl e \<Rightarrow> ([], Some e)
              | Inr sol \<Rightarrow>
                  (detail_lines (varValue sol) costs ceramic_composition
                   @ Total_Cost (objective_value (varValue sol) (objective (prob b)))
                   # (case generate_formatted_table_with_suppliers (x_dict b)
                             (varValue sol) ceramic_composition costs of
                        Inl e \<Rightarrow> [] | Inr t \<Rightarrow> [Table t]),
                   case generate_formatted_table_with_suppliers (x_dict b)
                             (varValue sol) ceramic_composition costs of
                     Inl e \<Rightarrow> Some e | Inr t \<Rightarrow> None))"
  using script_status script_built[OF assms] by blast

theorem report_ignores_status_witness:
  "\<exists>b. build_model sample_demand sample_costs sample_composition = Inr b
       \<and> script (\<lambda>mdl. map_sum id (\<lambda>r. r\<lparr>status := Infeasible\<rparr>) (sample_solver mdl))
             sample_demand sample_costs sample_composition
           = script sample_solver sample_demand sample_costs sample_composition
       \<and> script sample_solver sample_demand sample_costs sample_composition
           = ([Header ''A1'',
               Purchase ''white'' ''supplier 3'' (Some 58),
               Purchase ''yellow'' ''supplier 3'' (Some 38),
               Purchase ''gray'' ''supplier 1'' (Some 4),
               Blank,
               Total_Cost (Some (113893 / 50)),
               Table (''Dental implantation | White      | Yellow     | Pink       | Gray      \<newline>''
                 @ ''____________________________________________________________\<newline>''
                 @ ''A1              | supplier 3 | supplier 3 | 0          | supplier 1\<newline>'')],
              None)
       \<and> script failing_solver sample_demand sample_costs sample_composition
           = ([], Some PulpSolverError)
       \<and> script sample_solver [] [] [] = ([Total_Cost None, Table table_header], None)"
proof -
  obtain b where b: "build_model sample_demand sample_costs sample_composition = Inr b"
    using sample_built by blast
  note r = report_ignores_status[OF b]
  have 1: "script (\<lambda>mdl. map_sum id (\<lambda>r. r\<lparr>status := Infeasible\<rparr>) (sample_solver mdl))
             sample_demand sample_costs sample_composition
           = script sample_solver sample_demand sample_costs sample_composition"
    using r[where solver = sample_solver and st = Infeasible] by blast
  have 3: "script failing_solver sample_demand sample_costs sample_composition
           = ([], Some PulpSolverError)"
    using r[where solver = failing_solver] by (simp add: failing_solver_def)
  have 2: "script sample_solver sample_demand sample_costs sample_composition
           = ([Header ''A1'',
               Purchase ''white'' ''supplier 3'' (Some 58),
               Purchase ''yellow'' ''supplier 3'' (Some 38),
               Purchase ''gray'' ''supplier 1'' (Some 4),
               Blank,
               Total_Cost (Some (113893 / 50)),
               Table (''Dental implantation | White      | Yellow     | Pink       | Gray      \<newline>''
                 @ ''____________________________________________________________\<newline>''
                 @ ''A1              | supplier 3 | supplier 3 | 0          | supplier 1\<newline>'')],
              None)"
    by (simp add: script_def report_def build_defs sample_demand_def sample_costs_def
        sample_composition_def sample_solver_def sample_reply_def detail_view_def detail_entry_def
        then_run_def objective_value_def lpSum_def add_def of_var_def of_num_def scale_def
        generate_formatted_table_with_suppliers_def table_row_def format_row_def
        header_def divider_def ljust_def newline_def eval_nat_numeral)
  have e: "build_model [] [] [] = Inr \<lparr>x_dict = [], z_dict = [],
      prob = \<lparr>direction = LpMinimize, variables = [],
               objective = \<lparr>coeffs = [], const_part = 0\<rparr>, constraints = []\<rparr>\<rparr>"
    by (simp add: build_defs lpSum_def add_def of_num_def scale_def)
  have 4: "script sample_solver [] [] [] = ([Total_Cost None, Table table_header], None)"
    using report_ignores_status[OF e, where solver = sample_solver] header_divider
    by (simp add: sample_solver_def detail_lines_def objective_value_def keys_def
        generate_formatted_table_with_suppliers_def and_then_def)
  from b 1 2 3 4 show ?thesis by blast
qed

subsection \<open>C10\<close>

text \<open>
  C10. The summary table reads every row at the fixed positions 0 to 4. Let \<^verbatim>\<open>x\<close> have
  a variable with a value for every line, material and supplier of the tables. If some
  line has fewer than four materials, the function ends in IndexError. If no supplier
  name is empty, the table is the one of the composition cut to the first four materials
  of every line, so further materials leave no trace in it; and when every line has at
  least four materials, the table is the four-column header, the divider, and for every
  line a row with the name of the line and the labels of its first four materials, in
  this order.
\<close>

theorem table_reads_four_cells:
  assumes "\<forall>i\<in>set (keys ceramic_composition). \<forall>m\<in>set (materials ceramic_composition i).
             \<forall>s\<in>set (keys costs). (i, s, m) \<in> set x \<and> vals (X i s m) \<noteq> None"
  shows "((\<exists>i\<in>set (keys ceramic_composition). length (materials ceramic_composition i) < 4) \<longrightarrow>
            generate_formatted_table_with_suppliers x vals ceramic_composition costs = Inl IndexError)
       \<and> ((\<forall>s\<in>set (keys costs). s \<noteq> []) \<longrightarrow>
            generate_formatted_table_with_suppliers x vals ceramic_composition costs
              = generate_formatted_table_with_suppliers x vals (first_four ceramic_composition) costs
            \<and> ((\<forall>i\<in>set (keys ceramic_composition). 4 \<le> length (materials ceramic_composition i)) \<longrightarrow>
                 generate_formatted_table_with_suppliers x vals ceramic_composition costs
                   = Inr (table_text vals costs ceramic_composition)))"
proof (intro conjI impI)
  assume "\<exists>i\<in>set (keys ceramic_composition). length (materials ceramic_composition i) < 4"
  then obtain i where i: "i \<in> set (keys ceramic_composition)"
    and short: "length (materials ceramic_composition i) < 4"
    by blast
  have "for_each (table_row x vals ceramic_composition costs) (keys ceramic_composition) = Inl IndexError"
  proof (rule for_each_fails[OF _ i])
    fix j assume j: "j \<in> set (keys ceramic_composition)"
    show "table_row x vals ceramic_composition costs j = Inl IndexError
        \<or> (\<exists>row. table_row x vals ceramic_composition costs j = Inr row)"
      by (rule table_row_cases(1)[OF j]) (use assms j in blast)
  next
    show "table_row x vals ceramic_composition costs i = Inl IndexError"
      by (rule table_row_cases(2)[OF i _ short]) (use assms i in blast)
  qed
  then show "generate_formatted_table_with_suppliers x vals ceramic_composition costs = Inl IndexError"
    by (simp add: generate_formatted_table_with_suppliers_def and_then_def)
next
  assume names: "\<forall>s\<in>set (keys costs). s \<noteq> []"
  have "for_each (table_row x vals (first_four ceramic_composition) costs) (keys ceramic_composition)
        = for_each (table_row x vals ceramic_composition costs) (keys ceramic_composition)"
    by (rule for_each_cong_set, rule table_row_ok(1)) (use assms names in blast)+
  then show "generate_formatted_table_with_suppliers x vals ceramic_composition costs
      = generate_formatted_table_with_suppliers x vals (first_four ceramic_composition) costs"
    by (simp add: generate_formatted_table_with_suppliers_def keys_first_four)
next
  assume names: "\<forall>s\<in>set (keys costs). s \<noteq> []"
    and long: "\<forall>i\<in>set (keys ceramic_composition). 4 \<le> length (materials ceramic_composition i)"
  have "for_each (table_row x vals ceramic_composition costs) (keys ceramic_composition)
        = Inr (map (\<lambda>i. table_line i (map (chosen_label vals costs i) (materials ceramic_composition i)))
                (keys ceramic_composition))"
  proof (rule for_each_map, rule ballI)
    fix i assume i: "i \<in> set (keys ceramic_composition)"
    show "table_row x vals ceramic_composition costs i
          = Inr (table_line i (map (chosen_label vals costs i) (materials ceramic_composition i)))"
      by (rule table_row_text[OF i]) (use assms names long i in blast)+
  qed
  then show "generate_formatted_table_with_suppliers x vals ceramic_composition costs
      = Inr (table_text vals costs ceramic_composition)"
    using header_divider
    by (simp add: generate_formatted_table_with_suppliers_def and_then_def table_text_def)
qed

theorem table_reads_four_cells_witness:
  "list_all (\<lambda>i. list_all (\<lambda>m. list_all (\<lambda>s. (i, s, m) \<in> set five_x \<and> five_values (X i s m) \<noteq> None)
       (keys sample_costs)) (materials three_materials i)) (keys three_materials)
   \<and> list_ex (\<lambda>i. length (materials three_materials i) < 4) (keys three_materials)
   \<and> generate_formatted_table_with_suppliers five_x five_values three_materials sample_costs
       = Inl IndexError
   \<and> list_all (\<lambda>i. list_all (\<lambda>m. list_all (\<lambda>s. (i, s, m) \<in> set five_x \<and> five_values (X i s m) \<noteq> None)
       (keys sample_costs)) (materials five_materials i)) (keys five_materials)
   \<and> list_all (\<lambda>s. s \<noteq> []) (keys sample_costs)
   \<and> list_all (\<lambda>i. 4 \<le> length (materials five_materials i)) (keys five_materials)
   \<and> generate_formatted_table_with_suppliers five_x five_values five_materials sample_costs
       = generate_formatted_table_with_suppliers five_x five_values (first_four five_materials) sample_costs
   \<and> generate_formatted_table_with_suppliers five_x five_values five_materials sample_costs
       = Inr (''Dental implantation | White      | Yellow     | Pink       | Gray      \<newline>''
              @ ''____________________________________________________________\<newline>''
              @ ''E1              | supplier 1 | supplier 2 | supplier 3 | 0         \<newline>'')"
proof -
  have h3: "list_all (\<lambda>i. list_all (\<lambda>m. list_all (\<lambda>s. (i, s, m) \<in> set five_x \<and> five_values (X i s m) \<noteq> None)
       (keys sample_costs)) (materials three_materials i)) (keys three_materials)"
    by (simp add: keys_def materials_def sample_costs_def three_materials_def five_x_def five_values_def)
  have s3: "list_ex (\<lambda>i. length (materials three_materials i) < 4) (keys three_materials)"
    by (simp add: keys_def materials_def three_materials_def)
  have h5: "list_all (\<lambda>i. list_all (\<lambda>m. list_all (\<lambda>s. (i, s, m) \<in> set five_x \<and> five_values (X i s m) \<noteq> None)
       (keys sample_costs)) (materials five_materials i)) (keys five_materials)"
    by (simp add: keys_def materials_def sample_costs_def five_materials_def five_x_def five_values_def)
  have n: "list_all (\<lambda>s. s \<noteq> []) (keys sample_costs)"
    by (simp add: keys_def sample_costs_def)
  have l5: "list_all (\<lambda>i. 4 \<le> length (materials five_materials i)) (keys five_materials)"
    by (simp add: keys_def materials_def five_materials_def)
  from h3 have "\<forall>i\<in>set (keys three_materials). \<forall>m\<in>set (materials three_materials i).
      \<forall>s\<in>set (keys sample_costs). (i, s, m) \<in> set five_x \<and> five_values (X i s m) \<noteq> None"
    by (simp add: list_all_iff)
  from table_reads_four_cells[OF this] s3
  have r3: "generate_formatted_table_with_suppliers five_x five_values three_materials sample_costs
       = Inl IndexError"
    by (simp add: list_ex_iff)
  from h5 have "\<forall>i\<in>set (keys five_materials). \<forall>m\<in>set (materials five_materials i).
      \<forall>s\<in>set (keys sample_costs). (i, s, m) \<in> set five_x \<and> five_values (X i s m) \<noteq> None"
    by (simp add: list_all_iff)
  moreover from n have "\<forall>s\<in>set (keys sample_costs). s \<noteq> []"
    by (simp add: list_all_iff)
  moreover from l5 have "\<forall>i\<in>set (keys five_materials). 4 \<le> length (materials five_materials i)"
    by (simp add: list_all_iff)
  ultimately
  have r5: "generate_formatted_table_with_suppliers five_x five_values five_materials sample_costs
       = generate_formatted_table_with_suppliers five_x five_values (first_four five_materials) sample_costs"
    and t5: "generate_formatted_table_with_suppliers five_x five_values five_materials sample_costs
       = Inr (table_text five_values sample_costs five_materials)"
    using table_reads_four_cells[of five_materials sample_costs five_x five_values] by blast+
  have "table_text five_values sample_costs five_materials
       = ''Dental implantation | White      | Yellow     | Pink       | Gray      \<newline>''
              @ ''____________________________________________________________\<newline>''
              @ ''E1              | supplier 1 | supplier 2 | supplier 3 | 0         \<newline>''"
    by (simp add: table_text_def table_header_def table_line_def pad_def chosen_label_def
        keys_def materials_def sample_costs_def five_materials_def five_values_def
        eval_nat_numeral)
  with t5 have v5: "generate_formatted_table_with_suppliers five_x five_values five_materials sample_costs
       = Inr (''Dental implantation | White      | Yellow     | Pink       | Gray      \<newline>''
              @ ''____________________________________________________________\<newline>''
              @ ''E1              | supplier 1 | supplier 2 | supplier 3 | 0         \<newline>'')"
    by simp
  from h3 s3 r3 h5 n l5 r5 v5 show ?thesis by blast
qed

end
